theory Spec2Isabelle
  imports Main "HOL-Library.Sublist"
begin

section \<open>Runtime compilation of model plug-ins: CppModuleBuilder.cpp\<close>

text \<open>
  The builder talks to its environment through a handful of library calls:
  \<^verbatim>\<open>std::getenv\<close>, \<^verbatim>\<open>std::filesystem::exists\<close>, \<^verbatim>\<open>is_regular_file\<close>, \<^verbatim>\<open>absolute\<close>,
  \<^verbatim>\<open>system\<close>, \<^verbatim>\<open>std::ifstream\<close>, \<^verbatim>\<open>opendir/readdir\<close> and the child process started through
  \<^verbatim>\<open>TinyProcessLib::Process\<close>. The environment is a record of what these calls answer;
  the builder itself is translated function by function. Strings are byte strings.
\<close>

subsection \<open>std::string operations used by the builder\<close>

text \<open>\<^verbatim>\<open>s.find(needle) != std::string::npos\<close>\<close>

definition contains :: "string \<Rightarrow> string \<Rightarrow> bool" where
  "contains s needle = sublist needle s"

text \<open>\<^verbatim>\<open>s.find_last_of(c)\<close>: the last position of \<open>c\<close>, \<open>None\<close> for \<^verbatim>\<open>npos\<close>.\<close>

fun find_last_of :: "string \<Rightarrow> char \<Rightarrow> nat option" where
  "find_last_of [] c = None"
| "find_last_of (x # xs) c =
     (case find_last_of xs c of
        Some i \<Rightarrow> Some (Suc i)
      | None \<Rightarrow> if x = c then Some 0 else None)"

text \<open>
  \<^verbatim>\<open>s.substr(0, s.find_last_of('/'))\<close>. With \<^verbatim>\<open>npos\<close> as the count, \<^verbatim>\<open>substr\<close> returns the
  whole string, which is also what the guarded form
  \<^verbatim>\<open>if (lastSlash != npos) s = s.substr(0, lastSlash)\<close> leaves behind.
\<close>

definition up_to_last_slash :: "string \<Rightarrow> string" where
  "up_to_last_slash s =
     (case find_last_of s (CHR ''/'') of None \<Rightarrow> s | Some i \<Rightarrow> take i s)"

text \<open>\<^verbatim>\<open>std::to_string\<close> on the (non-negative) line counter.\<close>

definition digit_char :: "nat \<Rightarrow> char" where
  "digit_char d = char_of (48 + d)"

function to_string :: "nat \<Rightarrow> string" where
  "to_string n =
     (if n < 10 then [digit_char n] else to_string (n div 10) @ [digit_char (n mod 10)])"
  by pat_completeness auto
termination
  by (relation "measure id") auto

declare to_string.simps [simp del]

subsection \<open>The environment\<close>

datatype file_type = regular_file | directory | other_file

text \<open>
  What \<^verbatim>\<open>std::filesystem::status(p)\<close> finds: nothing, a file of some type, or an error
  of the underlying \<^verbatim>\<open>stat\<close> other than "not found" (access denied, name too long, ...).
\<close>

datatype file_status = not_found | found file_type | status_error

datatype chunk = Stdout string | Stderr string

text \<open>
  One run of \<^verbatim>\<open>TinyProcessLib::Process\<close>: constructing it throws, or the child runs, its
  output arrives piece by piece at the two read callbacks, and \<^verbatim>\<open>get_exit_status\<close> returns;
  the last component is the file system the child leaves behind. A piece is what one
  read of the pipe returned, \<^verbatim>\<open>std::string(bytes, n)\<close> in \<^verbatim>\<open>executeCommand\<close>: the
  library does not cut the output into lines.
\<close>

datatype proc_run = launch_throws | ran "chunk list" int "string \<Rightarrow> file_status"

record world =
  getenv :: "string \<Rightarrow> string option"
  status :: "string \<Rightarrow> file_status"
  current_path :: "string option"
  system :: "string \<Rightarrow> int"
  ifstream_good :: "string \<Rightarrow> bool"
  opendir :: "string \<Rightarrow> (string \<times> bool) list option"
  process :: "string \<Rightarrow> proc_run"

text \<open>
  Values fixed when the host application is built: the macros \<^verbatim>\<open>__cplusplus\<close>,
  \<^verbatim>\<open>CLANG_TOOLCHAIN_PATH\<close> (may be undefined), \<^verbatim>\<open>OOPENCAL_DIR\<close> and \<^verbatim>\<open>VTK_COMPILE_FLAGS\<close>
  come from CMake, and the default member initialisers of \<^verbatim>\<open>CompilationResult\<close> from
  CppModuleBuilder.h. None of them is in the sources at hand, so they are parameters.
\<close>

record build_config =
  cplusplus :: int
  CLANG_TOOLCHAIN_PATH :: "string option"
  OOPENCAL_DIR :: string
  VTK_COMPILE_FLAGS :: string
  default_success :: bool
  default_exitCode :: int

datatype exn = filesystem_error string

text \<open>
  \<^verbatim>\<open>fs::exists(p)\<close> and \<^verbatim>\<open>fs::is_regular_file(p)\<close> are the overloads without an
  \<^verbatim>\<open>error_code\<close>: they throw \<^verbatim>\<open>filesystem_error\<close> when the status cannot be determined.
\<close>

definition fs_exists :: "world \<Rightarrow> string \<Rightarrow> exn + bool" where
  "fs_exists w p =
     (case status w p of
        not_found \<Rightarrow> Inr False
      | found t \<Rightarrow> Inr True
      | status_error \<Rightarrow> Inl (filesystem_error p))"

definition fs_is_regular_file :: "world \<Rightarrow> string \<Rightarrow> exn + bool" where
  "fs_is_regular_file w p =
     (case status w p of
        not_found \<Rightarrow> Inr False
      | found t \<Rightarrow> Inr (t = regular_file)
      | status_error \<Rightarrow> Inl (filesystem_error p))"

text \<open>
  \<^verbatim>\<open>fs::absolute(p)\<close>: an absolute path is returned as it is, a relative one is appended
  to the current directory (no normalisation); it throws when \<open>p\<close> is empty or the
  current directory cannot be read. \<open>None\<close> stands for the exception.
\<close>

definition path_append :: "string \<Rightarrow> string \<Rightarrow> string" where
  "path_append d p = (if d \<noteq> [] \<and> last d \<noteq> CHR ''/'' then d @ ''/'' @ p else d @ p)"

definition fs_absolute :: "world \<Rightarrow> string \<Rightarrow> string option" where
  "fs_absolute w p =
     (case p of
        [] \<Rightarrow> None
      | c # cs \<Rightarrow>
          if c = CHR ''/'' then Some p
          else (case current_path w of None \<Rightarrow> None | Some d \<Rightarrow> Some (path_append d p)))"

subsection \<open>What an observer of the builder sees\<close>

text \<open>
  A call of the builder is observed through the commands it passes to \<^verbatim>\<open>system\<close>, the
  commands it starts as a child process and the messages it hands to the progress
  callback, in the order in which they happen. What it prints to \<^verbatim>\<open>std::cout\<close> and
  \<^verbatim>\<open>std::cerr\<close> is diagnostic output and left out.
\<close>

datatype event =
    SystemCall string
  | ProcessLaunch string
  | Progress string

fun is_probe :: "event \<Rightarrow> bool" where
  "is_probe (SystemCall c) = True"
| "is_probe e = False"

fun is_progress :: "event \<Rightarrow> bool" where
  "is_progress (Progress m) = True"
| "is_progress e = False"

text \<open>The commands a call handed to the process runner.\<close>

fun launched_commands :: "event list \<Rightarrow> string list" where
  "launched_commands [] = []"
| "launched_commands (ProcessLaunch c # ev) = c # launched_commands ev"
| "launched_commands (e # ev) = launched_commands ev"

subsection \<open>Toolchain resolution\<close>

definition detectCppStandard :: "build_config \<Rightarrow> string \<Rightarrow> string" where
  "detectCppStandard cfg userStandard =
     (if userStandard \<noteq> [] then userStandard
      else if cplusplus cfg \<ge> 202302 then ''c++23''
      else if cplusplus cfg \<ge> 202002 then ''c++20''
      else if cplusplus cfg \<ge> 201703 then ''c++17''
      else ''c++14'')"

text \<open>
  Steps 1 and 2 of \<^verbatim>\<open>getClangToolchainPath\<close> are the same code on two sources of the
  directory (the environment variable, the compile definition): a directory that is set
  and not empty, with \<^verbatim>\<open>clang++\<close> existing in it.
\<close>

definition clang_in_dir :: "world \<Rightarrow> string option \<Rightarrow> exn + string option" where
  "clang_in_dir w dir =
     (case dir of
        None \<Rightarrow> Inr None
      | Some path \<Rightarrow>
          if path \<noteq> [] then
            (let clangPath = path @ ''/clang++'' in
             case fs_exists w clangPath of
               Inl e \<Rightarrow> Inl e
             | Inr True \<Rightarrow> Inr (Some clangPath)
             | Inr False \<Rightarrow> Inr None)
          else Inr None)"

definition appImagePaths :: "string list" where
  "appImagePaths =
     [''../usr/bin/clang++'', ''../../usr/bin/clang++'',
      ''/usr/local/bin/clang++'', ''/opt/clang/bin/clang++'']"

fun first_existing :: "world \<Rightarrow> string list \<Rightarrow> exn + string" where
  "first_existing w [] = Inr []"
| "first_existing w (path # paths) =
     (case fs_exists w path of
        Inl e \<Rightarrow> Inl e
      | Inr True \<Rightarrow> Inr path
      | Inr False \<Rightarrow> first_existing w paths)"

definition getClangToolchainPath :: "build_config \<Rightarrow> world \<Rightarrow> exn + string" where
  "getClangToolchainPath cfg w =
     (case clang_in_dir w (getenv w ''CLANG_TOOLCHAIN_PATH'') of
        Inl e \<Rightarrow> Inl e
      | Inr (Some clangPath) \<Rightarrow> Inr clangPath
      | Inr None \<Rightarrow>
          (case clang_in_dir w (CLANG_TOOLCHAIN_PATH cfg) of
             Inl e \<Rightarrow> Inl e
           | Inr (Some clangPath) \<Rightarrow> Inr clangPath
           | Inr None \<Rightarrow> first_existing w appImagePaths))"

definition version_query :: "string \<Rightarrow> string" where
  "version_query compiler = compiler @ '' --version > /dev/null 2>&1''"

definition isCompilerAvailable :: "world \<Rightarrow> string \<Rightarrow> bool \<times> event list" where
  "isCompilerAvailable w compiler =
     (let command = version_query compiler
      in (system w command = 0, [SystemCall command]))"

definition fallbacks :: "string list" where
  "fallbacks = [''g++'', ''clang++'', ''c++'']"

fun try_fallbacks :: "world \<Rightarrow> string \<Rightarrow> string list \<Rightarrow> string \<times> event list" where
  "try_fallbacks w preferredCompiler [] = ([], [])"
| "try_fallbacks w preferredCompiler (compiler # rest) =
     (if compiler \<noteq> preferredCompiler then
        (case isCompilerAvailable w compiler of
           (True, ev) \<Rightarrow> (compiler, ev)
         | (False, ev) \<Rightarrow>
             (case try_fallbacks w preferredCompiler rest of (c, ev') \<Rightarrow> (c, ev @ ev')))
      else try_fallbacks w preferredCompiler rest)"

definition findAvailableCompiler :: "world \<Rightarrow> string \<Rightarrow> string \<times> event list" where
  "findAvailableCompiler w preferredCompiler =
     (case isCompilerAvailable w preferredCompiler of
        (True, ev) \<Rightarrow> (preferredCompiler, ev)
      | (False, ev) \<Rightarrow>
          (case try_fallbacks w preferredCompiler fallbacks of (c, ev') \<Rightarrow> (c, ev @ ev')))"

subsection \<open>The builder and its result\<close>

record CompilationResult =
  success :: bool
  exitCode :: int
  stdout :: string
  stderr :: string
  compileCommand :: string
  sourceFile :: string
  outputFile :: string

text \<open>
  \<open>progressCallback\<close> says whether a callback is set (\<^verbatim>\<open>if (progressCallback)\<close>); the
  messages it receives are the \<open>Progress\<close> events. \<open>lastResult\<close> is the builder's
  \<^verbatim>\<open>unique_ptr\<close>, empty before the first compilation.
\<close>

record CppModuleBuilder =
  compilerPath :: string
  oopencalDir :: string
  projectRootPath :: string
  progressCallback :: bool
  lastResult :: "CompilationResult option"

text \<open>\<^verbatim>\<open>std::make_unique<CompilationResult>()\<close>\<close>

definition new_CompilationResult :: "build_config \<Rightarrow> CompilationResult" where
  "new_CompilationResult cfg =
     \<lparr>success = default_success cfg, exitCode = default_exitCode cfg, stdout = [],
      stderr = [], compileCommand = [], sourceFile = [], outputFile = []\<rparr>"

definition report :: "CppModuleBuilder \<Rightarrow> string \<Rightarrow> event list" where
  "report b msg = (if progressCallback b then [Progress msg] else [])"

text \<open>The constructor: an empty directory falls back to the environment, then to CMake.\<close>

definition new_CppModuleBuilder ::
  "build_config \<Rightarrow> world \<Rightarrow> string \<Rightarrow> string \<Rightarrow> CppModuleBuilder" where
  "new_CppModuleBuilder cfg w cpath dir =
     \<lparr>compilerPath = cpath,
      oopencalDir =
        (if dir = [] then
           (case getenv w ''OOPENCAL_DIR'' of Some envDir \<Rightarrow> envDir | None \<Rightarrow> OOPENCAL_DIR cfg)
         else dir),
      projectRootPath = [],
      progressCallback = False,
      lastResult = None\<rparr>"

text \<open>\<^verbatim>\<open>fs::exists(outputPath) && fs::is_regular_file(outputPath)\<close>\<close>

definition moduleExists :: "world \<Rightarrow> string \<Rightarrow> exn + bool" where
  "moduleExists w outputPath =
     (case fs_exists w outputPath of
        Inl e \<Rightarrow> Inl e
      | Inr False \<Rightarrow> Inr False
      | Inr True \<Rightarrow> fs_is_regular_file w outputPath)"

subsection \<open>Command synthesis\<close>

definition dq :: string where
  "dq = [CHR 0x22]"

definition nl :: string where
  "nl = [CHR 0x0A]"

text \<open>
  The test the source repeats before each AppImage-specific block:
  \<^verbatim>\<open>compilerPath.find(".mount_") != npos || compilerPath.find("/tmp/") != npos\<close>.
\<close>

definition usesAppImageClang :: "string \<Rightarrow> bool" where
  "usesAppImageClang cpath = (contains cpath ''.mount_'' \<or> contains cpath ''/tmp/'')"

text \<open>\<open>basePath\<close> drops the file name; \<open>mountPoint\<close> drops two more components.\<close>

definition basePath :: "string \<Rightarrow> string" where
  "basePath cpath = up_to_last_slash cpath"

definition mountPoint :: "string \<Rightarrow> string" where
  "mountPoint cpath = up_to_last_slash (up_to_last_slash (basePath cpath))"

definition isystem :: "string \<Rightarrow> string" where
  "isystem d = '' -isystem '' @ dq @ d @ dq"

definition incl :: "string \<Rightarrow> string" where
  "incl d = '' -I'' @ dq @ d @ dq"

definition cmd_ld_library_path :: "string \<Rightarrow> string" where
  "cmd_ld_library_path cpath =
     (if usesAppImageClang cpath then
        (let libPath = basePath cpath @ ''/../lib/clang-libs:'' @ basePath cpath @ ''/../lib''
         in ''LD_LIBRARY_PATH='' @ dq @ libPath @ '':$LD_LIBRARY_PATH'' @ dq @ '' '')
      else [])"

definition cmd_compiler :: "string \<Rightarrow> string \<Rightarrow> string" where
  "cmd_compiler cpath standard = cpath @ '' -shared'' @ '' -fPIC'' @ '' -std='' @ standard"

definition cmd_nostdinc :: "string \<Rightarrow> string" where
  "cmd_nostdinc cpath =
     (if usesAppImageClang cpath then '' -nostdinc'' @ '' -nostdinc++'' else [])"

definition cmd_appimage_isystem :: "string \<Rightarrow> string" where
  "cmd_appimage_isystem cpath =
     (if usesAppImageClang cpath then
        (let appIncludePath = mountPoint cpath @ ''/usr/include'';
             clangIncludePath = mountPoint cpath @ ''/usr/lib/clang/21/include'';
             gccIncludePath14 = mountPoint cpath @ ''/usr/lib/gcc/x86_64-linux-gnu/14/include'';
             gccIncludeFixedPath14 =
               mountPoint cpath @ ''/usr/lib/gcc/x86_64-linux-gnu/14/include-fixed'';
             gccIncludePath15 =
               mountPoint cpath @ ''/usr/lib64/gcc/x86_64-pc-linux-gnu/15.2.1/include'';
             gccIncludeFixedPath15 =
               mountPoint cpath @ ''/usr/lib64/gcc/x86_64-pc-linux-gnu/15.2.1/include-fixed''
         in isystem appIncludePath
            @ isystem (appIncludePath @ ''/x86_64-linux-gnu'')
            @ isystem (appIncludePath @ ''/c++/v1'')
            @ isystem (appIncludePath @ ''/c++'')
            @ isystem (appIncludePath @ ''/x86_64-unknown-linux-gnu/c++/v1'')
            @ isystem clangIncludePath
            @ isystem gccIncludePath14
            @ isystem gccIncludeFixedPath14
            @ isystem gccIncludePath15
            @ isystem gccIncludeFixedPath15)
      else [])"

definition cmd_oopencal :: "CppModuleBuilder \<Rightarrow> string" where
  "cmd_oopencal b =
     (if oopencalDir b \<noteq> [] then
        incl (oopencalDir b @ ''/OOpenCAL/base'') @ incl (oopencalDir b)
      else [])"

definition cmd_project :: "world \<Rightarrow> CppModuleBuilder \<Rightarrow> string" where
  "cmd_project w b =
     (if projectRootPath b \<noteq> [] then
        incl (projectRootPath b)
        @ incl (projectRootPath b @ ''/visualiserProxy'')
        @ incl (projectRootPath b @ ''/config'')
      else
        (case getenv w ''OOPENCAL_VIEWER_ROOT'' of
           None \<Rightarrow> []
         | Some viewerRootPath \<Rightarrow>
             if viewerRootPath \<noteq> [] then
               incl viewerRootPath
               @ incl (viewerRootPath @ ''/visualiserProxy'')
               @ incl (viewerRootPath @ ''/config'')
               @ incl (viewerRootPath @ ''/utilities'')
               @ incl (viewerRootPath @ ''/visualiser'')
               @ incl (viewerRootPath @ ''/widgets'')
             else []))"

definition cmd_vtk :: "string \<Rightarrow> string" where
  "cmd_vtk cpath =
     (if usesAppImageClang cpath then
        (let vtkIncludePath = mountPoint cpath @ ''/usr/include''
         in incl (vtkIncludePath @ ''/vtk-9.1''))
      else '' -I/usr/include/vtk-9.1'')"

text \<open>
  The intrinsics directory: version 17 when its \<^verbatim>\<open>stddef.h\<close> can be opened, otherwise
  the first entry of \<^verbatim>\<open>usr/lib/clang\<close> that is a directory and whose name does not begin
  with a dot, otherwise version 17 all the same. A directory entry is its name and
  whether \<^verbatim>\<open>d_type == DT_DIR\<close>.
\<close>

definition visible_dir :: "string \<times> bool \<Rightarrow> bool" where
  "visible_dir entry =
     (snd entry \<and> (case fst entry of [] \<Rightarrow> True | c # cs \<Rightarrow> c \<noteq> CHR ''.''))"

definition clangIntrinsicsPath :: "world \<Rightarrow> string \<Rightarrow> string" where
  "clangIntrinsicsPath w cpath =
     (let v17 = mountPoint cpath @ ''/usr/lib/clang/17/include'';
          clangLibPath = mountPoint cpath @ ''/usr/lib/clang''
      in if ifstream_good w (v17 @ ''/stddef.h'') then v17
         else (case opendir w clangLibPath of
                 None \<Rightarrow> v17
               | Some entries \<Rightarrow>
                   (case find visible_dir entries of
                      None \<Rightarrow> v17
                    | Some entry \<Rightarrow> clangLibPath @ ''/'' @ fst entry @ ''/include'')))"

definition cmd_intrinsics :: "world \<Rightarrow> string \<Rightarrow> string" where
  "cmd_intrinsics w cpath =
     (if usesAppImageClang cpath then isystem (clangIntrinsicsPath w cpath) else [])"

definition cmd_bundled_headers :: "string \<Rightarrow> string" where
  "cmd_bundled_headers cpath =
     (if usesAppImageClang cpath then
        (let appIncludePath = mountPoint cpath @ ''/usr/include''
         in incl appIncludePath
            @ incl (appIncludePath @ ''/visualiserProxy'')
            @ incl (appIncludePath @ ''/config'')
            @ incl (appIncludePath @ ''/utilities'')
            @ incl (appIncludePath @ ''/visualiser'')
            @ incl (appIncludePath @ ''/widgets''))
      else [])"

definition cmd_files :: "build_config \<Rightarrow> string \<Rightarrow> string \<Rightarrow> string" where
  "cmd_files cfg srcFile outFile =
     '' '' @ VTK_COMPILE_FLAGS cfg @ '' '' @ dq @ srcFile @ dq @ '' -o '' @ dq @ outFile @ dq"

text \<open>
  \<^verbatim>\<open>cmd\<close> is an output string stream; the command is what was written to it, block after
  block in the order of the source.
\<close>

definition buildCompileCommand ::
  "build_config \<Rightarrow> world \<Rightarrow> CppModuleBuilder \<Rightarrow> string \<Rightarrow> string \<Rightarrow> string \<Rightarrow> string" where
  "buildCompileCommand cfg w b srcFile outFile cppStandard =
     (let standard = detectCppStandard cfg cppStandard
      in cmd_ld_library_path (compilerPath b)
         @ cmd_compiler (compilerPath b) standard
         @ cmd_nostdinc (compilerPath b)
         @ cmd_appimage_isystem (compilerPath b)
         @ cmd_oopencal b
         @ cmd_project w b
         @ cmd_vtk (compilerPath b)
         @ cmd_intrinsics w (compilerPath b)
         @ cmd_bundled_headers (compilerPath b)
         @ cmd_files cfg srcFile outFile)"

subsection \<open>Running the command\<close>

text \<open>
  The state the two lambdas of \<^verbatim>\<open>compileModule\<close> work on: the result being filled in,
  the local \<^verbatim>\<open>lineCount\<close>, and the messages handed to the progress callback so far. The
  counter is a C++ \<^verbatim>\<open>int\<close> that starts at 0 and only grows; it is a natural number here,
  so the two agree as long as fewer than \<open>2^31\<close> pieces have been counted (beyond that
  the increment in the source overflows, which has no defined behaviour).
  The parameter the source calls \<^verbatim>\<open>line\<close> is one piece of output as the process library
  delivers it (see \<open>proc_run\<close>): the bytes of one read, which may hold no line break,
  one, or many.
\<close>

record capture =
  res :: CompilationResult
  lineCount :: nat
  emitted :: "event list"

definition on_stdout :: "bool \<Rightarrow> string \<Rightarrow> capture \<Rightarrow> capture" where
  "on_stdout cb line st =
     (let st1 = st\<lparr>res := (res st)\<lparr>stdout := stdout (res st) @ line @ nl\<rparr>\<rparr>
      in if cb \<and> line \<noteq> [] then
           (let st2 = st1\<lparr>lineCount := lineCount st1 + 1\<rparr>
            in if lineCount st2 mod 5 = 0 then
                 st2\<lparr>emitted := emitted st2 @
                   [Progress (''Compiling... ('' @ to_string (lineCount st2) @ '' lines)'')]\<rparr>
               else st2)
         else st1)"

definition on_stderr :: "bool \<Rightarrow> string \<Rightarrow> capture \<Rightarrow> capture" where
  "on_stderr cb line st =
     (let st1 = st\<lparr>res := (res st)\<lparr>stderr := stderr (res st) @ line @ nl\<rparr>\<rparr>
      in if cb \<and> line \<noteq> [] then st1\<lparr>emitted := emitted st1 @ [Progress (''Error: '' @ line)]\<rparr>
         else st1)"

text \<open>
  The process hands every piece of output to the matching callback if one is given
  (\<^verbatim>\<open>if (stdout_callback)\<close>), in the order of arrival.
\<close>

fun deliver ::
  "(string \<Rightarrow> 's \<Rightarrow> 's) option \<Rightarrow> (string \<Rightarrow> 's \<Rightarrow> 's) option \<Rightarrow> chunk list \<Rightarrow> 's \<Rightarrow> 's" where
  "deliver stdout_callback stderr_callback [] st = st"
| "deliver stdout_callback stderr_callback (Stdout bytes # rest) st =
     deliver stdout_callback stderr_callback rest
       (case stdout_callback of None \<Rightarrow> st | Some f \<Rightarrow> f bytes st)"
| "deliver stdout_callback stderr_callback (Stderr bytes # rest) st =
     deliver stdout_callback stderr_callback rest
       (case stderr_callback of None \<Rightarrow> st | Some f \<Rightarrow> f bytes st)"

text \<open>
  \<^verbatim>\<open>executeCommand\<close> returns the exit status, or \<open>-1\<close> from its \<^verbatim>\<open>catch\<close> block; with it
  come the state the callbacks built and the file system after the run.
\<close>

definition executeCommand ::
  "world \<Rightarrow> string \<Rightarrow> (string \<Rightarrow> 's \<Rightarrow> 's) option \<Rightarrow> (string \<Rightarrow> 's \<Rightarrow> 's) option \<Rightarrow> 's
     \<Rightarrow> int \<times> 's \<times> (string \<Rightarrow> file_status)" where
  "executeCommand w command stdout_callback stderr_callback st =
     (case process w command of
        launch_throws \<Rightarrow> (- 1, st, status w)
      | ran chunks code fs' \<Rightarrow> (code, deliver stdout_callback stderr_callback chunks st, fs'))"

subsection \<open>compileModule\<close>

text \<open>
  A call yields the events it caused and either the exception that left it or the
  returned result with the builder as the call leaves it. The body is cut in three:
  \<open>resolveCompiler\<close> is the choice between the AppImage clang and the search
  ("Try to use clang from AppImage first"), \<open>runCompiler\<close> is everything from
  "Report progress: building command" to the end, on the builder whose \<open>compilerPath\<close>
  has been updated.
\<close>

definition resolveCompiler ::
  "build_config \<Rightarrow> world \<Rightarrow> CppModuleBuilder \<Rightarrow> string \<Rightarrow> string \<times> event list" where
  "resolveCompiler cfg w b clangFromAppImage =
     (if clangFromAppImage \<noteq> [] then
        ((case fs_absolute w clangFromAppImage of
            Some absolutePath \<Rightarrow> absolutePath
          | None \<Rightarrow> clangFromAppImage),
         report b (''Using clang from AppImage: '' @ clangFromAppImage))
      else findAvailableCompiler w (compilerPath b))"

definition runCompiler ::
  "build_config \<Rightarrow> world \<Rightarrow> CppModuleBuilder \<Rightarrow> CompilationResult \<Rightarrow> string \<Rightarrow> string \<Rightarrow> string
     \<Rightarrow> event list \<times> (exn + CompilationResult \<times> CppModuleBuilder)" where
  "runCompiler cfg w b r srcFile outFile cppStandard =
     (let ev3 = report b ''Preparing compilation command...'';
          r1 = r\<lparr>compileCommand := buildCompileCommand cfg w b srcFile outFile cppStandard\<rparr>;
          ev4 = report b ''Compilation of module ...''
      in case executeCommand w (compileCommand r1)
                (Some (on_stdout (progressCallback b))) (Some (on_stderr (progressCallback b)))
                \<lparr>res = r1, lineCount = 0, emitted = []\<rparr> of
           (code, st, fs') \<Rightarrow>
             (let r2 = (res st)\<lparr>exitCode := code\<rparr>;
                  ev = ev3 @ ev4 @ [ProcessLaunch (compileCommand r1)] @ emitted st
              in if code = 0 then
                   (case moduleExists (w\<lparr>status := fs'\<rparr>) outFile of
                      Inl e \<Rightarrow> (ev, Inl e)
                    | Inr ok \<Rightarrow>
                        (let r3 = r2\<lparr>success := ok\<rparr>
                         in (ev, Inr (r3, b\<lparr>lastResult := Some r3\<rparr>))))
                 else
                   (let r3 = r2\<lparr>success := False\<rparr>
                    in (ev, Inr (r3, b\<lparr>lastResult := Some r3\<rparr>)))))"

definition compileModule ::
  "build_config \<Rightarrow> world \<Rightarrow> CppModuleBuilder \<Rightarrow> string \<Rightarrow> string \<Rightarrow> string
     \<Rightarrow> event list \<times> (exn + CompilationResult \<times> CppModuleBuilder)" where
  "compileModule cfg w b srcFile outFile cppStandard =
     (let r0 = (new_CompilationResult cfg)\<lparr>sourceFile := srcFile, outputFile := outFile\<rparr>
      in case fs_exists w srcFile of
           Inl e \<Rightarrow> ([], Inl e)
         | Inr False \<Rightarrow>
             (let r = r0\<lparr>success := False,
                         stderr := ''Source file does not exist: '' @ srcFile\<rparr>
              in ([], Inr (r, b\<lparr>lastResult := Some r\<rparr>)))
         | Inr True \<Rightarrow>
             (let ev1 = report b ''Checking C++ compiler availability...''
              in case getClangToolchainPath cfg w of
                   Inl e \<Rightarrow> (ev1, Inl e)
                 | Inr clangFromAppImage \<Rightarrow>
                     (case resolveCompiler cfg w b clangFromAppImage of
                        (availableCompiler, ev2) \<Rightarrow>
                          if availableCompiler = [] then
                            (let r = r0\<lparr>success := False,
                                        stderr := ''No C++ compiler found. Please install clang++, g++, or c++.'',
                                        compileCommand := compilerPath b @ '' (not found)''\<rparr>
                             in (ev1 @ ev2 @ report b ''ERROR: No C++ compiler found'',
                                 Inr (r, b\<lparr>lastResult := Some r\<rparr>)))
                          else
                            (case runCompiler cfg w (b\<lparr>compilerPath := availableCompiler\<rparr>)
                                    r0 srcFile outFile cppStandard of
                               (ev, out) \<Rightarrow> (ev1 @ ev2 @ ev, out)))))"

subsection \<open>Notions the properties are stated with\<close>

text \<open>What \<^verbatim>\<open>executeCommand\<close> returns for a run, and the file system after it.\<close>

definition exit_status :: "proc_run \<Rightarrow> int" where
  "exit_status run = (case run of launch_throws \<Rightarrow> - 1 | ran chunks code fs' \<Rightarrow> code)"

definition status_after :: "world \<Rightarrow> proc_run \<Rightarrow> string \<Rightarrow> file_status" where
  "status_after w run = (case run of launch_throws \<Rightarrow> status w | ran chunks code fs' \<Rightarrow> fs')"

text \<open>
  The places a bundled compiler is looked for, in the order of the source: under the
  directory of the environment variable, under the directory of the compile definition,
  and the four fixed paths.
\<close>

definition dir_candidate :: "string option \<Rightarrow> string list" where
  "dir_candidate dir =
     (case dir of None \<Rightarrow> [] | Some path \<Rightarrow> if path \<noteq> [] then [path @ ''/clang++''] else [])"

definition bundled_candidates :: "build_config \<Rightarrow> world \<Rightarrow> string list" where
  "bundled_candidates cfg w =
     dir_candidate (getenv w ''CLANG_TOOLCHAIN_PATH'')
     @ dir_candidate (CLANG_TOOLCHAIN_PATH cfg) @ appImagePaths"

text \<open>A path at which the file system holds something.\<close>

definition present :: "world \<Rightarrow> string \<Rightarrow> bool" where
  "present w p = (status w p \<noteq> not_found)"

definition status_known :: "world \<Rightarrow> string \<Rightarrow> bool" where
  "status_known w p = (status w p \<noteq> status_error)"

text \<open>The compiler path \<^verbatim>\<open>compileModule\<close> stores for a bundled compiler found at \<open>clang\<close>.\<close>

definition resolved_path :: "world \<Rightarrow> string \<Rightarrow> string" where
  "resolved_path w clang = (case fs_absolute w clang of Some a \<Rightarrow> a | None \<Rightarrow> clang)"

text \<open>A version query succeeds; the compilers queried one after the other until one succeeds.\<close>

definition probe_ok :: "world \<Rightarrow> string \<Rightarrow> bool" where
  "probe_ok w compiler = (system w (version_query compiler) = 0)"

fun probes_until_success :: "world \<Rightarrow> string list \<Rightarrow> string list" where
  "probes_until_success w [] = []"
| "probes_until_success w (c # cs) =
     (if probe_ok w c then [c] else c # probes_until_success w cs)"

definition first_or_empty :: "string option \<Rightarrow> string" where
  "first_or_empty x = (case x of None \<Rightarrow> [] | Some c \<Rightarrow> c)"

text \<open>
  The directories handed to \<^verbatim>\<open>-isystem\<close> for an AppImage clang, in the order they are
  written to the command.
\<close>

definition isystem_dirs :: "world \<Rightarrow> string \<Rightarrow> string list" where
  "isystem_dirs w cpath =
     map (\<lambda>d. mountPoint cpath @ d)
       [''/usr/include'', ''/usr/include/x86_64-linux-gnu'', ''/usr/include/c++/v1'',
        ''/usr/include/c++'', ''/usr/include/x86_64-unknown-linux-gnu/c++/v1'',
        ''/usr/lib/clang/21/include'',
        ''/usr/lib/gcc/x86_64-linux-gnu/14/include'',
        ''/usr/lib/gcc/x86_64-linux-gnu/14/include-fixed'',
        ''/usr/lib64/gcc/x86_64-pc-linux-gnu/15.2.1/include'',
        ''/usr/lib64/gcc/x86_64-pc-linux-gnu/15.2.1/include-fixed'']
     @ [clangIntrinsicsPath w cpath]"


text \<open>
  A scanner for the text \<^verbatim>\<open>-I/\<close>, an include flag with an absolute path and no quote:
  the state is how much of the text has just been read, 3 once all of it has been.
\<close>

definition scan_step :: "nat \<Rightarrow> char \<Rightarrow> nat" where
  "scan_step q c =
     (if q = 3 then 3
      else if c = CHR ''-'' then 1
      else if q = 1 \<and> c = CHR ''I'' then 2
      else if q = 2 \<and> c = CHR ''/'' then 3
      else 0)"

definition scan :: "nat \<Rightarrow> string \<Rightarrow> nat" where
  "scan q s = foldl scan_step q s"

section \<open>The adapter: SceneWidgetVisualizerAdapter.h\<close>

text \<open>
  The adapter wraps a \<^verbatim>\<open>SceneWidgetVisualizerTemplate<Cell>\<close>, which is declared in
  SceneWidgetVisualizerProxy.h and is not among the sources at hand. It is a parameter:
  a type \<open>'i\<close> of implementation states, with what each operation the adapter calls does
  to the state (\<open>perform\<close>) and the three things the adapter reads from it. Pointers and
  VTK smart pointers are handles; a step index is an integer.
\<close>

type_synonym handle = nat

datatype impl_call =
    Impl_initMatrix int int
  | ModelReader_prepareStage int int
  | ModelReader_clearStage
  | ModelReader_readStepsOffsetsForAllNodesFromFiles int int string
  | ModelReader_readStageStateFromFilesForStep handle handle handle
  | Visualiser_drawWithVTK handle int int handle handle
  | Visualiser_refreshWindowsVTK handle int int handle

record 'i template_impl =
  perform :: "impl_call \<Rightarrow> 'i \<Rightarrow> 'i"
  impl_p :: "'i \<Rightarrow> handle"
  impl_visualiser :: "'i \<Rightarrow> handle"
  modelReader_availableSteps :: "'i \<Rightarrow> int list"

record 'i SceneWidgetVisualizerAdapter =
  m_impl :: 'i
  m_modelName :: string

text \<open>The constructor; \<open>impl\<close> is the default-constructed implementation.\<close>

definition new_SceneWidgetVisualizerAdapter ::
  "'i \<Rightarrow> string \<Rightarrow> 'i SceneWidgetVisualizerAdapter" where
  "new_SceneWidgetVisualizerAdapter impl modelName = \<lparr>m_impl = impl, m_modelName = modelName\<rparr>"

datatype adapter_call =
    initMatrix int int
  | prepareStage int int
  | clearStage
  | readStepsOffsetsForAllNodesFromFiles int int string
  | readStageStateFromFilesForStep handle handle
  | drawWithVTK int int handle handle
  | refreshWindowsVTK int int handle
  | getVisualizer
  | getModelName
  | availableSteps

datatype reply = Void | VisualizerRef handle | ModelName string | Steps "int list"

fun invoke ::
  "'i template_impl \<Rightarrow> adapter_call \<Rightarrow> 'i SceneWidgetVisualizerAdapter
     \<Rightarrow> reply \<times> 'i SceneWidgetVisualizerAdapter" where
  "invoke ops (initMatrix dimX dimY) a =
     (Void, a\<lparr>m_impl := perform ops (Impl_initMatrix dimX dimY) (m_impl a)\<rparr>)"
| "invoke ops (prepareStage nNodeX nNodeY) a =
     (Void, a\<lparr>m_impl := perform ops (ModelReader_prepareStage nNodeX nNodeY) (m_impl a)\<rparr>)"
| "invoke ops clearStage a =
     (Void, a\<lparr>m_impl := perform ops ModelReader_clearStage (m_impl a)\<rparr>)"
| "invoke ops (readStepsOffsetsForAllNodesFromFiles nNodeX nNodeY filename) a =
     (Void, a\<lparr>m_impl := perform ops
        (ModelReader_readStepsOffsetsForAllNodesFromFiles nNodeX nNodeY filename) (m_impl a)\<rparr>)"
| "invoke ops (readStageStateFromFilesForStep sp lines) a =
     (Void, a\<lparr>m_impl := perform ops
        (ModelReader_readStageStateFromFilesForStep (impl_p ops (m_impl a)) sp lines) (m_impl a)\<rparr>)"
| "invoke ops (drawWithVTK nRows nCols renderer gridActor) a =
     (Void, a\<lparr>m_impl := perform ops
        (Visualiser_drawWithVTK (impl_p ops (m_impl a)) nRows nCols renderer gridActor) (m_impl a)\<rparr>)"
| "invoke ops (refreshWindowsVTK nRows nCols gridActor) a =
     (Void, a\<lparr>m_impl := perform ops
        (Visualiser_refreshWindowsVTK (impl_p ops (m_impl a)) nRows nCols gridActor) (m_impl a)\<rparr>)"
| "invoke ops getVisualizer a = (VisualizerRef (impl_visualiser ops (m_impl a)), a)"
| "invoke ops getModelName a = (ModelName (m_modelName a), a)"
| "invoke ops availableSteps a = (Steps (modelReader_availableSteps ops (m_impl a)), a)"

text \<open>A life of the adapter: calls one after the other, with their replies.\<close>

fun invoke_all ::
  "'i template_impl \<Rightarrow> adapter_call list \<Rightarrow> 'i SceneWidgetVisualizerAdapter
     \<Rightarrow> reply list \<times> 'i SceneWidgetVisualizerAdapter" where
  "invoke_all ops [] a = ([], a)"
| "invoke_all ops (c # cs) a =
     (case invoke ops c a of
        (r, a') \<Rightarrow> (case invoke_all ops cs a' of (rs, a'') \<Rightarrow> (r # rs, a'')))"

text \<open>
  What "forwarded unchanged" means, stated on the implementation alone: the operation of
  the implementation that stands for an interface operation (same name, same arguments,
  the implementation's own \<open>p\<close> added where its signature asks for it), the state of the
  implementation after a list of interface operations, and the replies it gives.
\<close>

fun forwarded :: "handle \<Rightarrow> adapter_call \<Rightarrow> impl_call option" where
  "forwarded p (initMatrix dimX dimY) = Some (Impl_initMatrix dimX dimY)"
| "forwarded p (prepareStage nNodeX nNodeY) = Some (ModelReader_prepareStage nNodeX nNodeY)"
| "forwarded p clearStage = Some ModelReader_clearStage"
| "forwarded p (readStepsOffsetsForAllNodesFromFiles nNodeX nNodeY filename) =
     Some (ModelReader_readStepsOffsetsForAllNodesFromFiles nNodeX nNodeY filename)"
| "forwarded p (readStageStateFromFilesForStep sp lines) =
     Some (ModelReader_readStageStateFromFilesForStep p sp lines)"
| "forwarded p (drawWithVTK nRows nCols renderer gridActor) =
     Some (Visualiser_drawWithVTK p nRows nCols renderer gridActor)"
| "forwarded p (refreshWindowsVTK nRows nCols gridActor) =
     Some (Visualiser_refreshWindowsVTK p nRows nCols gridActor)"
| "forwarded p getVisualizer = None"
| "forwarded p getModelName = None"
| "forwarded p availableSteps = None"

definition impl_after_call :: "'i template_impl \<Rightarrow> adapter_call \<Rightarrow> 'i \<Rightarrow> 'i" where
  "impl_after_call ops c impl =
     (case forwarded (impl_p ops impl) c of None \<Rightarrow> impl | Some ic \<Rightarrow> perform ops ic impl)"

fun impl_after :: "'i template_impl \<Rightarrow> adapter_call list \<Rightarrow> 'i \<Rightarrow> 'i" where
  "impl_after ops [] impl = impl"
| "impl_after ops (c # cs) impl = impl_after ops cs (impl_after_call ops c impl)"

definition impl_reply :: "'i template_impl \<Rightarrow> string \<Rightarrow> adapter_call \<Rightarrow> 'i \<Rightarrow> reply" where
  "impl_reply ops modelName c impl =
     (case c of
        getVisualizer \<Rightarrow> VisualizerRef (impl_visualiser ops impl)
      | getModelName \<Rightarrow> ModelName modelName
      | availableSteps \<Rightarrow> Steps (modelReader_availableSteps ops impl)
      | _ \<Rightarrow> Void)"

fun impl_replies :: "'i template_impl \<Rightarrow> string \<Rightarrow> adapter_call list \<Rightarrow> 'i \<Rightarrow> reply list" where
  "impl_replies ops modelName [] impl = []"
| "impl_replies ops modelName (c # cs) impl =
     impl_reply ops modelName c impl # impl_replies ops modelName cs (impl_after_call ops c impl)"

section \<open>Environments for the examples\<close>

text \<open>
  A host built as C++17 with nothing else configured; a file system holding the module
  source \<open>m.cpp\<close>; a child process that prints nothing, exits with 0 and leaves
  \<open>m.so\<close> behind; \<open>g++\<close> as the only compiler that answers a version query.
\<close>

definition cfg_demo :: build_config where
  "cfg_demo =
     \<lparr>cplusplus = 201703, CLANG_TOOLCHAIN_PATH = None, OOPENCAL_DIR = [],
      VTK_COMPILE_FLAGS = [], default_success = False, default_exitCode = 0\<rparr>"

definition fs_source :: "string \<Rightarrow> file_status" where
  "fs_source p = (if p = ''m.cpp'' then found regular_file else not_found)"

definition fs_built :: "string \<Rightarrow> file_status" where
  "fs_built p = (if p = ''m.cpp'' \<or> p = ''m.so'' then found regular_file else not_found)"

definition w_demo :: world where
  "w_demo =
     \<lparr>getenv = (\<lambda>v. None),
      status = fs_source,
      current_path = Some ''/home/user'',
      system = (\<lambda>c. if c = ''g++ --version > /dev/null 2>&1'' then 0 else 127),
      ifstream_good = (\<lambda>p. False),
      opendir = (\<lambda>p. None),
      process = (\<lambda>c. ran [] 0 fs_built)\<rparr>"

definition b_demo :: CppModuleBuilder where
  "b_demo =
     \<lparr>compilerPath = ''clang++'', oopencalDir = [], projectRootPath = [],
      progressCallback = False, lastResult = None\<rparr>"

text \<open>What a compilation in this environment comes to: \<open>clang++\<close> is not there, \<open>g++\<close> is.\<close>

definition cmd_demo :: string where
  "cmd_demo =
     ''g++ -shared -fPIC -std=c++17 -I/usr/include/vtk-9.1  '' @ dq @ ''m.cpp'' @ dq
     @ '' -o '' @ dq @ ''m.so'' @ dq"

definition r_demo :: CompilationResult where
  "r_demo =
     \<lparr>success = True, exitCode = 0, stdout = [], stderr = [], compileCommand = cmd_demo,
      sourceFile = ''m.cpp'', outputFile = ''m.so''\<rparr>"

definition ev_demo :: "event list" where
  "ev_demo =
     [SystemCall ''clang++ --version > /dev/null 2>&1'',
      SystemCall ''g++ --version > /dev/null 2>&1'',
      ProcessLaunch cmd_demo]"

text \<open>The same with a compiler wrapper that exits with 0 and writes nothing.\<close>

definition w_no_artifact :: world where
  "w_no_artifact = w_demo\<lparr>process := (\<lambda>c. ran [] 0 fs_source)\<rparr>"

text \<open>
  An AppImage mounted under \<open>/tmp/.mount_OOpenC\<close> whose launcher sets
  \<open>CLANG_TOOLCHAIN_PATH\<close>; no compiler answers a version query here, the bundled
  one included.
\<close>

definition w_appimage :: world where
  "w_appimage =
     w_demo\<lparr>getenv := (\<lambda>v. if v = ''CLANG_TOOLCHAIN_PATH''
                           then Some ''/tmp/.mount_OOpenC/usr/bin'' else None),
            status := (\<lambda>p. if p = ''m.cpp'' \<or> p = ''/tmp/.mount_OOpenC/usr/bin/clang++''
                           then found regular_file else not_found),
            system := (\<lambda>c. 127)\<rparr>"


text \<open>
  A self-contained deployment unpacked under \<open>/opt/oopencal\<close>, its launcher setting
  \<open>CLANG_TOOLCHAIN_PATH\<close>; and the command the builder launches there.
\<close>

definition w_opt :: world where
  "w_opt =
     w_demo\<lparr>getenv := (\<lambda>v. if v = ''CLANG_TOOLCHAIN_PATH''
                           then Some ''/opt/oopencal/bin'' else None),
            status := (\<lambda>p. if p = ''m.cpp'' \<or> p = ''/opt/oopencal/bin/clang++''
                           then found regular_file else not_found),
            system := (\<lambda>c. 127)\<rparr>"

definition cmd_opt :: string where
  "cmd_opt =
     ''/opt/oopencal/bin/clang++ -shared -fPIC -std=c++17 -I/usr/include/vtk-9.1  ''
     @ dq @ ''m.cpp'' @ dq @ '' -o '' @ dq @ ''m.so'' @ dq"

text \<open>
  A host whose only compiler was built by the user under \<open>/tmp/gcc\<close>, and a builder
  constructed with that compiler.
\<close>

definition w_tmp :: world where
  "w_tmp =
     w_demo\<lparr>system := (\<lambda>c. if c = ''/tmp/gcc/bin/g++ --version > /dev/null 2>&1''
                           then 0 else 127)\<rparr>"

definition b_tmp :: CppModuleBuilder where
  "b_tmp = b_demo\<lparr>compilerPath := ''/tmp/gcc/bin/g++''\<rparr>"

text \<open>A builder whose compiler is the clang of a mounted AppImage.\<close>

definition b_appimage :: CppModuleBuilder where
  "b_appimage = b_demo\<lparr>compilerPath := ''/tmp/.mount_OOpenC/usr/bin/clang++''\<rparr>"




text \<open>
  A caller that watches progress. A compiler that prints 23 lines, each arriving as a
  piece of its own. The same 23 lines arriving in one piece, as they do when the
  compiler writes them at once, followed by two lines on stderr that arrive in one
  piece as well.
\<close>

definition b_watch :: CppModuleBuilder where
  "b_watch = b_demo\<lparr>progressCallback := True\<rparr>"

definition w_lines :: world where
  "w_lines =
     w_demo\<lparr>process := (\<lambda>c. ran (replicate 23 (Stdout (''x'' @ nl))) 0 fs_built)\<rparr>"

definition out23 :: string where
  "out23 = concat (replicate 23 (''x'' @ nl))"

definition err2 :: string where
  "err2 = ''err1'' @ nl @ ''err2'' @ nl"

definition w_one_piece :: world where
  "w_one_piece = w_demo\<lparr>process := (\<lambda>c. ran [Stdout out23, Stderr err2] 0 fs_built)\<rparr>"

text \<open>A source file whose status cannot be read (a directory that may not be searched).\<close>

definition w_unreadable :: world where
  "w_unreadable =
     w_demo\<lparr>status := (\<lambda>p. if p = ''/root/models/m.cpp'' then status_error else not_found)\<rparr>"

section \<open>Properties of the builder\<close>

subsection \<open>Events\<close>

lemma report_compilerPath [simp]: "report (b\<lparr>compilerPath := c\<rparr>) msg = report b msg"
  by (simp add: report_def)

lemma report_progress: "list_all is_progress (report b m)"
  by (simp add: report_def)

lemma launched_commands_append:
  "launched_commands (xs @ ys) = launched_commands xs @ launched_commands ys"
  by (induction xs rule: launched_commands.induct) simp_all

lemma launched_commands_progress: "list_all is_progress ev \<Longrightarrow> launched_commands ev = []"
  by (induction ev rule: launched_commands.induct) simp_all

lemma launched_commands_probes: "launched_commands (map (\<lambda>c. SystemCall (f c)) xs) = []"
  by (induction xs) simp_all

lemma filter_probe_progress: "list_all is_progress ev \<Longrightarrow> filter is_probe ev = []"
proof (induction ev)
  case Nil
  show ?case by simp
next
  case (Cons e ev)
  then show ?case by (cases e) simp_all
qed

subsection \<open>The callbacks of a run\<close>

lemma on_stdout_fields [simp]:
  "compileCommand (res (on_stdout cb line st)) = compileCommand (res st)"
  "sourceFile (res (on_stdout cb line st)) = sourceFile (res st)"
  "outputFile (res (on_stdout cb line st)) = outputFile (res st)"
  by (simp_all add: on_stdout_def Let_def)

lemma on_stderr_fields [simp]:
  "compileCommand (res (on_stderr cb line st)) = compileCommand (res st)"
  "sourceFile (res (on_stderr cb line st)) = sourceFile (res st)"
  "outputFile (res (on_stderr cb line st)) = outputFile (res st)"
  by (simp_all add: on_stderr_def Let_def)

lemma deliver_fields:
  "compileCommand (res (deliver (Some (on_stdout cb)) (Some (on_stderr cb)) chunks st))
     = compileCommand (res st)
   \<and> sourceFile (res (deliver (Some (on_stdout cb)) (Some (on_stderr cb)) chunks st))
     = sourceFile (res st)
   \<and> outputFile (res (deliver (Some (on_stdout cb)) (Some (on_stderr cb)) chunks st))
     = outputFile (res st)"
proof (induction chunks arbitrary: st)
  case Nil
  show ?case by simp
next
  case (Cons c chunks)
  show ?case by (cases c) (simp_all add: Cons.IH)
qed

lemma on_stdout_progress:
  "list_all is_progress (emitted st) \<Longrightarrow> list_all is_progress (emitted (on_stdout cb line st))"
  by (simp add: on_stdout_def Let_def)

lemma on_stderr_progress:
  "list_all is_progress (emitted st) \<Longrightarrow> list_all is_progress (emitted (on_stderr cb line st))"
  by (simp add: on_stderr_def Let_def)

text \<open>Whatever the process prints, the callbacks add nothing but progress messages.\<close>

lemma deliver_progress:
  assumes "list_all is_progress (emitted st)"
  shows "list_all is_progress
           (emitted (deliver (Some (on_stdout cb)) (Some (on_stderr cb)) cs st))"
  using assms
proof (induction cs arbitrary: st)
  case Nil
  then show ?case by simp
next
  case (Cons c cs)
  then show ?case by (cases c) (simp_all add: on_stdout_progress on_stderr_progress)
qed

lemma deliver_emitted_progress:
  "list_all is_progress (emitted (deliver (Some (on_stdout cb)) (Some (on_stderr cb)) cs
      \<lparr>res = r, lineCount = 0, emitted = []\<rparr>))"
  by (rule deliver_progress) simp

subsection \<open>From the command to the result\<close>

lemma executeCommand_launch_failure:
  assumes "process w command = launch_throws"
  shows "executeCommand w command stdout_callback stderr_callback st = (- 1, st, status w)"
  using assms by (simp add: executeCommand_def)

lemma executeCommand_exit_status:
  "fst (executeCommand w command stdout_callback stderr_callback st)
     = exit_status (process w command)"
  by (simp add: executeCommand_def exit_status_def split: proc_run.splits)

lemma runCompiler_events:
  "fst (runCompiler cfg w b r srcFile outFile cppStandard) =
     report b ''Preparing compilation command...'' @ report b ''Compilation of module ...''
     @ ProcessLaunch (buildCompileCommand cfg w b srcFile outFile cppStandard)
     # (case process w (buildCompileCommand cfg w b srcFile outFile cppStandard) of
          launch_throws \<Rightarrow> []
        | ran chunks code fs' \<Rightarrow>
            emitted (deliver (Some (on_stdout (progressCallback b)))
               (Some (on_stderr (progressCallback b))) chunks
               \<lparr>res = r\<lparr>compileCommand := buildCompileCommand cfg w b srcFile outFile cppStandard\<rparr>,
                lineCount = 0, emitted = []\<rparr>))"
  by (simp add: runCompiler_def executeCommand_def Let_def
        split: proc_run.splits sum.splits prod.splits)

lemma runCompiler_result:
  assumes "snd (runCompiler cfg w b r srcFile outFile cppStandard) = Inr (r', b')"
  shows "compileCommand r' = buildCompileCommand cfg w b srcFile outFile cppStandard"
    and "exitCode r' = exit_status (process w (compileCommand r'))"
    and "success r' = (exitCode r' = 0
           \<and> status_after w (process w (compileCommand r')) outFile = found regular_file)"
    and "b' = b\<lparr>lastResult := Some r'\<rparr>"
  using assms
  by (auto simp add: runCompiler_def executeCommand_def Let_def exit_status_def status_after_def
        moduleExists_def fs_exists_def fs_is_regular_file_def deliver_fields
      split: proc_run.splits sum.splits prod.splits if_splits file_status.splits bool.splits)

lemma runCompiler_failures:
  assumes "exit_status (process w (buildCompileCommand cfg w b srcFile outFile cppStandard)) \<noteq> 0
           \<or> status_after w (process w (buildCompileCommand cfg w b srcFile outFile cppStandard))
                outFile = not_found"
  shows "\<exists>r'. snd (runCompiler cfg w b r srcFile outFile cppStandard)
                 = Inr (r', b\<lparr>lastResult := Some r'\<rparr>)
           \<and> success r' = False
           \<and> exitCode r'
               = exit_status (process w (buildCompileCommand cfg w b srcFile outFile cppStandard))"
  using assms
  by (auto simp add: runCompiler_def executeCommand_def Let_def exit_status_def status_after_def
        moduleExists_def fs_exists_def split: proc_run.splits)

lemma runCompiler_no_probe:
  "filter is_probe (fst (runCompiler cfg w b r srcFile outFile cppStandard)) = []"
  by (simp add: runCompiler_events filter_probe_progress report_progress
        deliver_emitted_progress split: proc_run.splits)

lemma launched_commands_runCompiler:
  "launched_commands (fst (runCompiler cfg w b r srcFile outFile cppStandard))
     = [buildCompileCommand cfg w b srcFile outFile cppStandard]"
  by (simp add: runCompiler_events launched_commands_append launched_commands_progress
        report_progress deliver_emitted_progress split: proc_run.splits)

lemma runCompiler_builder:
  "snd (runCompiler cfg w b r srcFile outFile cppStandard) = Inr (r', b') \<Longrightarrow>
     compilerPath b' = compilerPath b"
  by (drule runCompiler_result(4)) simp

subsection \<open>Looking for a compiler\<close>

text \<open>The three steps of \<open>getClangToolchainPath\<close> are one search through the candidates.\<close>

lemma clang_in_dir_first_existing:
  "(case clang_in_dir w dir of
      Inl e \<Rightarrow> Inl e
    | Inr (Some clangPath) \<Rightarrow> Inr clangPath
    | Inr None \<Rightarrow> first_existing w ps)
   = first_existing w (dir_candidate dir @ ps)"
  by (simp add: clang_in_dir_def dir_candidate_def Let_def
        split: option.splits sum.splits bool.splits)

lemma getClangToolchainPath_first_existing:
  "getClangToolchainPath cfg w = first_existing w (bundled_candidates cfg w)"
  unfolding getClangToolchainPath_def bundled_candidates_def clang_in_dir_first_existing
  by (rule refl)

lemma first_existing_find:
  assumes "find (present w) ps = Some c" and "status_known w c"
  shows "first_existing w ps = Inr c"
  using assms
proof (induction ps)
  case Nil
  then show ?case by simp
next
  case (Cons p ps)
  show ?case
  proof (cases "present w p")
    case True
    with Cons.prems have "p = c" by simp
    with True Cons.prems(2) show ?thesis
      by (simp add: fs_exists_def present_def status_known_def split: file_status.splits)
  next
    case False
    with Cons show ?thesis
      by (simp add: fs_exists_def present_def)
  qed
qed


lemma getClangToolchainPath_env:
  assumes "getenv w ''CLANG_TOOLCHAIN_PATH'' = Some dir" and "dir \<noteq> []"
      and "status w (dir @ ''/clang++'') = found t"
  shows "getClangToolchainPath cfg w = Inr (dir @ ''/clang++'')"
  using assms by (simp add: getClangToolchainPath_def clang_in_dir_def fs_exists_def Let_def)

lemma bundled_candidates_nonempty: "p \<in> set (bundled_candidates cfg w) \<Longrightarrow> p \<noteq> []"
  by (auto simp: bundled_candidates_def dir_candidate_def appImagePaths_def
        split: option.splits if_splits)

lemma resolved_path_nonempty: "clang \<noteq> [] \<Longrightarrow> resolved_path w clang \<noteq> []"
  by (auto simp: resolved_path_def fs_absolute_def path_append_def
        split: option.splits list.splits if_splits)

text \<open>The search among system compilers, as a search through a list.\<close>

lemma try_fallbacks_char:
  "try_fallbacks w p cs =
     (first_or_empty (find (probe_ok w) (filter (\<lambda>c. c \<noteq> p) cs)),
      map (\<lambda>c. SystemCall (version_query c))
        (probes_until_success w (filter (\<lambda>c. c \<noteq> p) cs)))"
  by (induction cs)
     (simp_all add: isCompilerAvailable_def probe_ok_def first_or_empty_def Let_def)

lemma findAvailableCompiler_char:
  "findAvailableCompiler w p =
     (first_or_empty (find (probe_ok w) (p # filter (\<lambda>c. c \<noteq> p) fallbacks)),
      map (\<lambda>c. SystemCall (version_query c))
        (probes_until_success w (p # filter (\<lambda>c. c \<noteq> p) fallbacks)))"
  by (simp add: findAvailableCompiler_def try_fallbacks_char isCompilerAvailable_def
        probe_ok_def first_or_empty_def Let_def)


lemma launched_commands_resolveCompiler:
  "launched_commands (snd (resolveCompiler cfg w b clang)) = []"
  by (simp add: resolveCompiler_def findAvailableCompiler_char launched_commands_probes
        launched_commands_progress report_progress)

subsection \<open>The three ways through compileModule\<close>

lemma compileModule_no_source:
  assumes "status w srcFile = not_found"
  shows "compileModule cfg w b srcFile outFile cppStandard =
    ([], Inr ((new_CompilationResult cfg)
                \<lparr>sourceFile := srcFile, outputFile := outFile, success := False,
                 stderr := ''Source file does not exist: '' @ srcFile\<rparr>,
              b\<lparr>lastResult := Some ((new_CompilationResult cfg)
                \<lparr>sourceFile := srcFile, outputFile := outFile, success := False,
                 stderr := ''Source file does not exist: '' @ srcFile\<rparr>)\<rparr>))"
  using assms by (simp add: compileModule_def fs_exists_def Let_def)

lemma compileModule_resolved:
  assumes "fs_exists w srcFile = Inr True"
      and "getClangToolchainPath cfg w = Inr clang"
      and "resolveCompiler cfg w b clang = (c, ev2)"
      and "c \<noteq> []"
  shows "compileModule cfg w b srcFile outFile cppStandard =
     (report b ''Checking C++ compiler availability...'' @ ev2 @
        fst (runCompiler cfg w (b\<lparr>compilerPath := c\<rparr>)
               ((new_CompilationResult cfg)\<lparr>sourceFile := srcFile, outputFile := outFile\<rparr>)
               srcFile outFile cppStandard),
      snd (runCompiler cfg w (b\<lparr>compilerPath := c\<rparr>)
               ((new_CompilationResult cfg)\<lparr>sourceFile := srcFile, outputFile := outFile\<rparr>)
               srcFile outFile cppStandard))"
  using assms by (simp add: compileModule_def Let_def split: prod.splits)

lemma compileModule_unresolved:
  assumes "fs_exists w srcFile = Inr True"
      and "getClangToolchainPath cfg w = Inr clang"
      and "resolveCompiler cfg w b clang = ([], ev2)"
  shows "compileModule cfg w b srcFile outFile cppStandard =
     (report b ''Checking C++ compiler availability...'' @ ev2
        @ report b ''ERROR: No C++ compiler found'',
      Inr ((new_CompilationResult cfg)
             \<lparr>sourceFile := srcFile, outputFile := outFile, success := False,
              stderr := ''No C++ compiler found. Please install clang++, g++, or c++.'',
              compileCommand := compilerPath b @ '' (not found)''\<rparr>,
           b\<lparr>lastResult := Some ((new_CompilationResult cfg)
             \<lparr>sourceFile := srcFile, outputFile := outFile, success := False,
              stderr := ''No C++ compiler found. Please install clang++, g++, or c++.'',
              compileCommand := compilerPath b @ '' (not found)''\<rparr>)\<rparr>))"
  using assms by (simp add: compileModule_def Let_def)

lemma status_error_escapes:
  assumes "status w srcFile = status_error"
  shows "compileModule cfg w b srcFile outFile cppStandard = ([], Inl (filesystem_error srcFile))"
  using assms by (simp add: compileModule_def fs_exists_def Let_def)

text \<open>A call that launched a process went the second way.\<close>

lemma compileModule_reaches_run:
  assumes "launched_commands (fst (compileModule cfg w b srcFile outFile cppStandard)) \<noteq> []"
  shows "\<exists>clang c ev2. fs_exists w srcFile = Inr True \<and> getClangToolchainPath cfg w = Inr clang
           \<and> resolveCompiler cfg w b clang = (c, ev2) \<and> c \<noteq> []
           \<and> launched_commands ev2 = []"
proof -
  from assms have src: "fs_exists w srcFile = Inr True"
    by (auto simp: compileModule_def Let_def split: sum.splits bool.splits)
  with assms obtain clang where clang: "getClangToolchainPath cfg w = Inr clang"
    by (auto simp: compileModule_def Let_def report_def split: sum.splits bool.splits if_splits)
  obtain c ev2 where res: "resolveCompiler cfg w b clang = (c, ev2)"
    by (cases "resolveCompiler cfg w b clang")
  have ev2: "launched_commands ev2 = []"
    using launched_commands_resolveCompiler [of cfg w b clang] res by simp
  have c: "c \<noteq> []"
  proof
    assume "c = []"
    with compileModule_unresolved [OF src clang, of b ev2 outFile cppStandard] res ev2
    have "launched_commands (fst (compileModule cfg w b srcFile outFile cppStandard)) = []"
      by (simp add: launched_commands_append launched_commands_progress report_progress)
    with assms show False by simp
  qed
  from src clang res c ev2 show ?thesis by blast
qed

subsection \<open>Include flags in the command\<close>

text \<open>The scanner finds every occurrence of \<^verbatim>\<open>-I/\<close>.\<close>

lemma scan_Nil [simp]: "scan q [] = q"
  by (simp add: scan_def)

lemma scan_Cons [simp]: "scan q (c # s) = scan (scan_step q c) s"
  by (simp add: scan_def)


























subsection \<open>The shape of the command\<close>

lemma cmd_oopencal_compilerPath [simp]: "cmd_oopencal (b\<lparr>compilerPath := c\<rparr>) = cmd_oopencal b"
  by (simp add: cmd_oopencal_def)

lemma cmd_project_compilerPath [simp]:
  "cmd_project w (b\<lparr>compilerPath := c\<rparr>) = cmd_project w b"
  by (simp add: cmd_project_def)

lemma contains_mid: "contains (a @ x @ b) x"
  by (simp add: contains_def)

lemma isystem_block:
  "usesAppImageClang cpath \<Longrightarrow>
     cmd_appimage_isystem cpath = concat (map isystem (butlast (isystem_dirs w cpath)))"
  by (simp add: cmd_appimage_isystem_def isystem_dirs_def Let_def)

lemma intrinsics_block:
  "usesAppImageClang cpath \<Longrightarrow> cmd_intrinsics w cpath = isystem (last (isystem_dirs w cpath))"
  by (simp add: cmd_intrinsics_def isystem_dirs_def)

lemma buildCompileCommand_system:
  assumes "\<not> usesAppImageClang (compilerPath b)"
  shows "buildCompileCommand cfg w b srcFile outFile cppStandard =
           compilerPath b @ '' -shared -fPIC -std='' @ detectCppStandard cfg cppStandard
           @ cmd_oopencal b @ cmd_project w b @ '' -I/usr/include/vtk-9.1''
           @ cmd_files cfg srcFile outFile"
  using assms
  by (simp add: buildCompileCommand_def cmd_ld_library_path_def cmd_compiler_def cmd_nostdinc_def
        cmd_appimage_isystem_def cmd_vtk_def cmd_intrinsics_def cmd_bundled_headers_def)

lemma buildCompileCommand_appimage:
  assumes "usesAppImageClang (compilerPath b)"
  shows "buildCompileCommand cfg w b srcFile outFile cppStandard =
           ''LD_LIBRARY_PATH='' @ dq @ basePath (compilerPath b) @ ''/../lib/clang-libs:''
             @ basePath (compilerPath b) @ ''/../lib:$LD_LIBRARY_PATH'' @ dq @ '' ''
           @ compilerPath b @ '' -shared -fPIC -std='' @ detectCppStandard cfg cppStandard
           @ '' -nostdinc -nostdinc++''
           @ concat (map isystem (butlast (isystem_dirs w (compilerPath b))))
           @ cmd_oopencal b @ cmd_project w b
           @ incl (mountPoint (compilerPath b) @ ''/usr/include/vtk-9.1'')
           @ isystem (last (isystem_dirs w (compilerPath b)))
           @ cmd_bundled_headers (compilerPath b)
           @ cmd_files cfg srcFile outFile"
  using assms
  by (simp add: buildCompileCommand_def cmd_ld_library_path_def cmd_compiler_def cmd_nostdinc_def
        isystem_block [of _ w] intrinsics_block cmd_vtk_def Let_def)

subsection \<open>Evaluation in the concrete environments\<close>

lemmas eval_defs =
  compileModule_def fs_exists_def fs_is_regular_file_def getClangToolchainPath_def
  clang_in_dir_def appImagePaths_def resolveCompiler_def findAvailableCompiler_def
  isCompilerAvailable_def version_query_def fallbacks_def runCompiler_def
  buildCompileCommand_def cmd_ld_library_path_def cmd_compiler_def cmd_nostdinc_def
  cmd_appimage_isystem_def cmd_oopencal_def cmd_project_def cmd_vtk_def cmd_intrinsics_def
  cmd_bundled_headers_def cmd_files_def usesAppImageClang_def contains_def
  detectCppStandard_def executeCommand_def moduleExists_def new_CompilationResult_def
  report_def fs_absolute_def path_append_def Let_def incl_def isystem_def dq_def nl_def
  mountPoint_def basePath_def up_to_last_slash_def clangIntrinsicsPath_def
  sublist_Cons_right

lemmas demo_defs =
  cfg_demo_def w_demo_def b_demo_def fs_source_def fs_built_def cmd_demo_def r_demo_def
  ev_demo_def w_no_artifact_def

section \<open>The claims about the builder\<close>

text \<open>
  C1. A call that launched the compiler process and returned has \<open>success\<close> true exactly
  when the exit code is 0 and the output file is a regular file in the file system the
  child left behind; the exit code is the exit status of the process run on the result's
  command, or \<open>-1\<close> if it could not be launched. In particular exit code 0 without an
  artifact gives \<open>success = False\<close>.
\<close>

theorem success_iff_exit_zero_and_artifact:
  assumes "compileModule cfg w b srcFile outFile cppStandard = (ev, Inr (r, b'))"
      and "launched_commands ev \<noteq> []"
  shows "launched_commands ev = [compileCommand r]
     \<and> exitCode r = exit_status (process w (compileCommand r))
     \<and> (success r \<longleftrightarrow>
          exitCode r = 0
          \<and> status_after w (process w (compileCommand r)) outFile = found regular_file)
     \<and> (exitCode r = 0 \<and> status_after w (process w (compileCommand r)) outFile = not_found
          \<longrightarrow> \<not> success r)"
proof -
  let ?r0 = "(new_CompilationResult cfg)\<lparr>sourceFile := srcFile, outputFile := outFile\<rparr>"
  from assms have "launched_commands (fst (compileModule cfg w b srcFile outFile cppStandard)) \<noteq> []"
    by simp
  from compileModule_reaches_run [OF this]
  obtain clang c ev2 where src: "fs_exists w srcFile = Inr True"
    and get: "getClangToolchainPath cfg w = Inr clang"
    and res: "resolveCompiler cfg w b clang = (c, ev2)" and c: "c \<noteq> []"
    and ev2: "launched_commands ev2 = []"
    by blast
  note run = compileModule_resolved [OF src get res c, of outFile cppStandard]
  from run assms(1)
  have result: "snd (runCompiler cfg w (b\<lparr>compilerPath := c\<rparr>) ?r0 srcFile outFile cppStandard)
                  = Inr (r, b')"
    by simp
  from run assms(1)
  have "launched_commands ev
          = [buildCompileCommand cfg w (b\<lparr>compilerPath := c\<rparr>) srcFile outFile cppStandard]"
    by (auto simp add: launched_commands_append launched_commands_progress report_progress ev2
          launched_commands_runCompiler)
  with runCompiler_result(1) [OF result] have launched: "launched_commands ev = [compileCommand r]"
    by simp
  from launched runCompiler_result(2,3) [OF result] show ?thesis by simp
qed

theorem success_iff_exit_zero_and_artifact_witness:
  "compileModule cfg_demo w_demo b_demo ''m.cpp'' ''m.so'' []
     = (ev_demo, Inr (r_demo, b_demo\<lparr>compilerPath := ''g++'', lastResult := Some r_demo\<rparr>))
   \<and> launched_commands ev_demo = [cmd_demo]
   \<and> success r_demo \<and> exitCode r_demo = 0
   \<and> status_after w_demo (process w_demo cmd_demo) ''m.so'' = found regular_file
   \<and> compileModule cfg_demo w_no_artifact b_demo ''m.cpp'' ''m.so'' []
     = (ev_demo, Inr (r_demo\<lparr>success := False\<rparr>,
          b_demo\<lparr>compilerPath := ''g++'', lastResult := Some (r_demo\<lparr>success := False\<rparr>)\<rparr>))
   \<and> exitCode (r_demo\<lparr>success := False\<rparr>) = 0
   \<and> status_after w_no_artifact (process w_no_artifact cmd_demo) ''m.so'' = not_found
   \<and> \<not> success (r_demo\<lparr>success := False\<rparr>)"
proof -
  have run: "compileModule cfg_demo w_demo b_demo ''m.cpp'' ''m.so'' []
     = (ev_demo, Inr (r_demo, b_demo\<lparr>compilerPath := ''g++'', lastResult := Some r_demo\<rparr>))"
    by (simp add: eval_defs demo_defs)
  have run': "compileModule cfg_demo w_no_artifact b_demo ''m.cpp'' ''m.so'' []
     = (ev_demo, Inr (r_demo\<lparr>success := False\<rparr>,
          b_demo\<lparr>compilerPath := ''g++'', lastResult := Some (r_demo\<lparr>success := False\<rparr>)\<rparr>))"
    by (simp add: eval_defs demo_defs)
  have launched: "launched_commands ev_demo \<noteq> []"
    by (simp add: ev_demo_def)
  have cmd: "compileCommand r_demo = cmd_demo"
    by (simp add: r_demo_def)
  have artifact: "status_after w_demo (process w_demo cmd_demo) ''m.so'' = found regular_file"
    by (simp add: status_after_def w_demo_def fs_built_def)
  have no_artifact:
    "status_after w_no_artifact (process w_no_artifact cmd_demo) ''m.so'' = not_found"
    by (simp add: status_after_def w_no_artifact_def w_demo_def fs_source_def)
  from success_iff_exit_zero_and_artifact [OF run launched]
       success_iff_exit_zero_and_artifact [OF run' launched]
  show ?thesis
    using run run' cmd artifact no_artifact by (simp add: r_demo_def)
qed

text \<open>
  C2. When the source file does not exist, \<open>compileModule\<close> returns at once: the result
  has \<open>success = False\<close> and the message naming the file, no command was synthesised
  (the command field is still empty), the builder's compiler path is untouched, and the
  call caused no event at all: no version query, no process, no progress message.
\<close>

theorem missing_source_fails_fast:
  assumes "status w srcFile = not_found"
  shows "\<exists>r. compileModule cfg w b srcFile outFile cppStandard
               = ([], Inr (r, b\<lparr>lastResult := Some r\<rparr>))
           \<and> success r = False
           \<and> stderr r = ''Source file does not exist: '' @ srcFile
           \<and> compileCommand r = []
           \<and> stdout r = []
           \<and> exitCode r = default_exitCode cfg
           \<and> sourceFile r = srcFile \<and> outputFile r = outFile"
  by (simp add: compileModule_no_source [OF assms] new_CompilationResult_def)

theorem missing_source_fails_fast_witness:
  "status w_demo ''missing.cpp'' = not_found
   \<and> (\<exists>r. compileModule cfg_demo w_demo b_demo ''missing.cpp'' ''m.so'' []
              = ([], Inr (r, b_demo\<lparr>lastResult := Some r\<rparr>))
         \<and> success r = False
         \<and> stderr r = ''Source file does not exist: missing.cpp'')"
proof -
  have missing: "status w_demo ''missing.cpp'' = not_found"
    by (simp add: w_demo_def fs_source_def)
  from missing_source_fails_fast [OF missing, of cfg_demo b_demo "''m.so''" "[]"] missing
  show ?thesis by auto
qed

text \<open>
  C3. Let \<open>clang\<close> be the first of the places a bundled compiler is looked for (the
  directory of the environment variable, the directory of the compile definition, the
  fixed paths) at which the file system holds something, and let its status be readable.
  Then \<open>getClangToolchainPath\<close> returns it, the call makes no version query at all,
  whatever such a query would answer, and launches exactly one process: the compilation
  with that compiler, whose absolute path is what the builder keeps.
\<close>

theorem bundled_compiler_used_without_probe:
  assumes src: "fs_exists w srcFile = Inr True"
      and first: "find (present w) (bundled_candidates cfg w) = Some clang"
      and known: "status_known w clang"
  shows "getClangToolchainPath cfg w = Inr clang
     \<and> filter is_probe (fst (compileModule cfg w b srcFile outFile cppStandard)) = []
     \<and> launched_commands (fst (compileModule cfg w b srcFile outFile cppStandard))
         = [buildCompileCommand cfg w (b\<lparr>compilerPath := resolved_path w clang\<rparr>)
              srcFile outFile cppStandard]
     \<and> (\<forall>r b'. snd (compileModule cfg w b srcFile outFile cppStandard) = Inr (r, b')
           \<longrightarrow> compilerPath b' = resolved_path w clang)"
proof -
  let ?r0 = "(new_CompilationResult cfg)\<lparr>sourceFile := srcFile, outputFile := outFile\<rparr>"
  let ?b = "b\<lparr>compilerPath := resolved_path w clang\<rparr>"
  from first have "clang \<in> set (bundled_candidates cfg w)"
    by (auto simp: find_Some_iff)
  then have ne: "clang \<noteq> []"
    by (rule bundled_candidates_nonempty)
  have get: "getClangToolchainPath cfg w = Inr clang"
    by (simp add: getClangToolchainPath_first_existing first_existing_find [OF first known])
  have res: "resolveCompiler cfg w b clang
               = (resolved_path w clang, report b (''Using clang from AppImage: '' @ clang))"
    using ne by (simp add: resolveCompiler_def resolved_path_def)
  note run = compileModule_resolved
    [OF src get res resolved_path_nonempty [OF ne], of outFile cppStandard]
  have probes: "filter is_probe (fst (compileModule cfg w b srcFile outFile cppStandard)) = []"
    by (simp add: run runCompiler_no_probe filter_probe_progress report_progress)
  have launch: "launched_commands (fst (compileModule cfg w b srcFile outFile cppStandard))
                  = [buildCompileCommand cfg w ?b srcFile outFile cppStandard]"
    by (simp add: run launched_commands_append launched_commands_progress report_progress
          launched_commands_runCompiler)
  have path: "\<forall>r b'. snd (compileModule cfg w b srcFile outFile cppStandard) = Inr (r, b')
                 \<longrightarrow> compilerPath b' = resolved_path w clang"
    using runCompiler_builder [of cfg w ?b ?r0 srcFile outFile cppStandard]
    by (simp add: run)
  from get probes launch path show ?thesis by blast
qed

theorem bundled_compiler_used_without_probe_witness:
  "fs_exists w_appimage ''m.cpp'' = Inr True
   \<and> find (present w_appimage) (bundled_candidates cfg_demo w_appimage)
       = Some ''/tmp/.mount_OOpenC/usr/bin/clang++''
   \<and> status_known w_appimage ''/tmp/.mount_OOpenC/usr/bin/clang++''
   \<and> \<not> probe_ok w_appimage ''/tmp/.mount_OOpenC/usr/bin/clang++''
   \<and> getClangToolchainPath cfg_demo w_appimage = Inr ''/tmp/.mount_OOpenC/usr/bin/clang++''
   \<and> filter is_probe (fst (compileModule cfg_demo w_appimage b_demo ''m.cpp'' ''m.so'' [])) = []
   \<and> (\<exists>r b'. snd (compileModule cfg_demo w_appimage b_demo ''m.cpp'' ''m.so'' []) = Inr (r, b')
         \<and> success r \<and> compilerPath b' = ''/tmp/.mount_OOpenC/usr/bin/clang++'')"
proof -
  have src: "fs_exists w_appimage ''m.cpp'' = Inr True"
    by (simp add: fs_exists_def w_appimage_def w_demo_def)
  have first: "find (present w_appimage) (bundled_candidates cfg_demo w_appimage)
                 = Some ''/tmp/.mount_OOpenC/usr/bin/clang++''"
    by (simp add: present_def bundled_candidates_def dir_candidate_def appImagePaths_def
          w_appimage_def w_demo_def cfg_demo_def)
  have known: "status_known w_appimage ''/tmp/.mount_OOpenC/usr/bin/clang++''"
    by (simp add: status_known_def w_appimage_def w_demo_def)
  have no_probe: "\<not> probe_ok w_appimage ''/tmp/.mount_OOpenC/usr/bin/clang++''"
    by (simp add: probe_ok_def w_appimage_def w_demo_def)
  have abs: "resolved_path w_appimage ''/tmp/.mount_OOpenC/usr/bin/clang++''
               = ''/tmp/.mount_OOpenC/usr/bin/clang++''"
    by (simp add: resolved_path_def fs_absolute_def)
  have returns:
    "\<exists>r b'. snd (compileModule cfg_demo w_appimage b_demo ''m.cpp'' ''m.so'' []) = Inr (r, b')
            \<and> success r"
    by (simp add: eval_defs demo_defs w_appimage_def)
  from bundled_compiler_used_without_probe [OF src first known, of b_demo "''m.so''" "[]"]
  show ?thesis
    using src first known no_probe abs returns by auto
qed






text \<open>
  C6 (as amended). When the compiler path contains \<open>.mount_\<close> or \<open>/tmp/\<close>, the command
  begins with the assignment of \<open>LD_LIBRARY_PATH\<close> to the two library directories beside
  the compiler, followed by a space and the compiler path: the setting stands before
  the compiler, it is not one of its arguments. When the path contains neither, the
  command begins with the compiler path and no such prefix is written.
\<close>

theorem ld_library_path_prefix_by_path:
  "(usesAppImageClang (compilerPath b) \<longrightarrow>
      prefix (''LD_LIBRARY_PATH='' @ dq @ basePath (compilerPath b) @ ''/../lib/clang-libs:''
                @ basePath (compilerPath b) @ ''/../lib:$LD_LIBRARY_PATH'' @ dq @ '' ''
                @ compilerPath b @ '' -shared -fPIC'')
             (buildCompileCommand cfg w b srcFile outFile cppStandard))
   \<and> (\<not> usesAppImageClang (compilerPath b) \<longrightarrow>
        cmd_ld_library_path (compilerPath b) = []
        \<and> prefix (compilerPath b @ '' -shared -fPIC'')
             (buildCompileCommand cfg w b srcFile outFile cppStandard))"
proof (cases "usesAppImageClang (compilerPath b)")
  case True
  then show ?thesis
    by (simp add: buildCompileCommand_appimage)
next
  case False
  then show ?thesis
    by (simp add: buildCompileCommand_system cmd_ld_library_path_def)
qed

theorem ld_library_path_prefix_by_path_witness:
  "usesAppImageClang (compilerPath b_appimage)
   \<and> prefix (''LD_LIBRARY_PATH='' @ dq
               @ ''/tmp/.mount_OOpenC/usr/bin/../lib/clang-libs:/tmp/.mount_OOpenC/usr/bin/../lib:$LD_LIBRARY_PATH''
               @ dq @ '' /tmp/.mount_OOpenC/usr/bin/clang++ -shared -fPIC'')
            (buildCompileCommand cfg_demo w_demo b_appimage ''m.cpp'' ''m.so'' [])
   \<and> \<not> usesAppImageClang (compilerPath b_demo)
   \<and> prefix ''clang++ -shared -fPIC'' (buildCompileCommand cfg_demo w_demo b_demo ''m.cpp'' ''m.so'' [])"
proof -
  have uses: "usesAppImageClang (compilerPath b_appimage)"
    by (simp add: usesAppImageClang_def contains_def b_appimage_def sublist_Cons_right)
  have base: "basePath ''/tmp/.mount_OOpenC/usr/bin/clang++'' = ''/tmp/.mount_OOpenC/usr/bin''"
    by (simp add: basePath_def up_to_last_slash_def)
  have path: "compilerPath b_appimage = ''/tmp/.mount_OOpenC/usr/bin/clang++''"
    by (simp add: b_appimage_def)
  have plain: "\<not> usesAppImageClang (compilerPath b_demo)"
    by (simp add: usesAppImageClang_def contains_def b_demo_def sublist_Cons_right)
  have path': "compilerPath b_demo = ''clang++''"
    by (simp add: b_demo_def)
  from ld_library_path_prefix_by_path [of b_appimage cfg_demo w_demo "''m.cpp''" "''m.so''" "[]"] uses
  have "prefix (''LD_LIBRARY_PATH='' @ dq @ basePath (compilerPath b_appimage) @ ''/../lib/clang-libs:''
                @ basePath (compilerPath b_appimage) @ ''/../lib:$LD_LIBRARY_PATH'' @ dq @ '' ''
                @ compilerPath b_appimage @ '' -shared -fPIC'')
             (buildCompileCommand cfg_demo w_demo b_appimage ''m.cpp'' ''m.so'' [])"
    by blast
  then have with_prefix: "prefix (''LD_LIBRARY_PATH='' @ dq
               @ ''/tmp/.mount_OOpenC/usr/bin/../lib/clang-libs:/tmp/.mount_OOpenC/usr/bin/../lib:$LD_LIBRARY_PATH''
               @ dq @ '' /tmp/.mount_OOpenC/usr/bin/clang++ -shared -fPIC'')
            (buildCompileCommand cfg_demo w_demo b_appimage ''m.cpp'' ''m.so'' [])"
    unfolding path base by simp
  from ld_library_path_prefix_by_path [of b_demo cfg_demo w_demo "''m.cpp''" "''m.so''" "[]"] plain
  have "prefix (compilerPath b_demo @ '' -shared -fPIC'')
             (buildCompileCommand cfg_demo w_demo b_demo ''m.cpp'' ''m.so'' [])"
    by blast
  then have without: "prefix ''clang++ -shared -fPIC''
             (buildCompileCommand cfg_demo w_demo b_demo ''m.cpp'' ''m.so'' [])"
    unfolding path' by simp
  from uses with_prefix plain without show ?thesis by blast
qed

text \<open>
  Stated for every system toolchain, the last part of C6 fails: with no bundled compiler
  anywhere, the system compiler \<open>/tmp/gcc/bin/g++\<close> is found by its version query and
  launched with the \<open>LD_LIBRARY_PATH\<close> prefix.
\<close>

theorem system_compiler_under_tmp_gets_prefix:
  "getClangToolchainPath cfg_demo w_tmp = Inr []
   \<and> findAvailableCompiler w_tmp (compilerPath b_tmp)
        = (''/tmp/gcc/bin/g++'', [SystemCall ''/tmp/gcc/bin/g++ --version > /dev/null 2>&1''])
   \<and> launched_commands (fst (compileModule cfg_demo w_tmp b_tmp ''m.cpp'' ''m.so'' []))
        = [buildCompileCommand cfg_demo w_tmp b_tmp ''m.cpp'' ''m.so'' []]
   \<and> prefix (''LD_LIBRARY_PATH='' @ dq
               @ ''/tmp/gcc/bin/../lib/clang-libs:/tmp/gcc/bin/../lib:$LD_LIBRARY_PATH''
               @ dq @ '' /tmp/gcc/bin/g++ -shared -fPIC'')
            (buildCompileCommand cfg_demo w_tmp b_tmp ''m.cpp'' ''m.so'' [])"
  by (simp add: eval_defs demo_defs w_tmp_def b_tmp_def)

text \<open>
  C7. The two callbacks of \<open>compileModule\<close> take what they are given for one line: the
  parameter is called \<^verbatim>\<open>line\<close>, a line break is appended to it, and the message counts
  "lines". What they are given is one piece of output, as many bytes as one read of the
  pipe returned, and nothing cuts it into lines. So the claim holds only when every
  line happens to arrive as a piece of its own. When the 23 lines of stdout arrive in
  one piece, the counter reaches 1 and the callback receives no batch message at all,
  where the claim has four; the two lines of stderr arriving in one piece give one
  message holding both, where the claim has one for each. With one line per piece the
  four messages after lines 5, 10, 15 and 20 are sent, and they are the last events of
  the call.
\<close>

theorem output_pieces_counted_as_lines:
  "length (filter (\<lambda>c. c = CHR 0x0A) out23) = 23
   \<and> length (filter (\<lambda>c. c = CHR 0x0A) err2) = 2
   \<and> process w_one_piece cmd_demo = ran [Stdout out23, Stderr err2] 0 fs_built
   \<and> fst (compileModule cfg_demo w_one_piece b_watch ''m.cpp'' ''m.so'' [])
     = [Progress ''Checking C++ compiler availability...'',
        SystemCall ''clang++ --version > /dev/null 2>&1'',
        SystemCall ''g++ --version > /dev/null 2>&1'',
        Progress ''Preparing compilation command...'',
        Progress ''Compilation of module ...'',
        ProcessLaunch cmd_demo,
        Progress (''Error: err1'' @ nl @ ''err2'' @ nl)]
   \<and> process w_lines cmd_demo = ran (replicate 23 (Stdout (''x'' @ nl))) 0 fs_built
   \<and> fst (compileModule cfg_demo w_lines b_watch ''m.cpp'' ''m.so'' [])
     = [Progress ''Checking C++ compiler availability...'',
        SystemCall ''clang++ --version > /dev/null 2>&1'',
        SystemCall ''g++ --version > /dev/null 2>&1'',
        Progress ''Preparing compilation command...'',
        Progress ''Compilation of module ...'',
        ProcessLaunch cmd_demo,
        Progress ''Compiling... (5 lines)'',
        Progress ''Compiling... (10 lines)'',
        Progress ''Compiling... (15 lines)'',
        Progress ''Compiling... (20 lines)'']"
proof -
  have n1: "length (filter (\<lambda>c. c = CHR 0x0A) out23) = 23"
    by code_simp
  have n2: "length (filter (\<lambda>c. c = CHR 0x0A) err2) = 2"
    by code_simp
  have proc1: "process w_one_piece cmd_demo = ran [Stdout out23, Stderr err2] 0 fs_built"
    by (simp add: w_one_piece_def)
  have events1: "fst (compileModule cfg_demo w_one_piece b_watch ''m.cpp'' ''m.so'' [])
     = [Progress ''Checking C++ compiler availability...'',
        SystemCall ''clang++ --version > /dev/null 2>&1'',
        SystemCall ''g++ --version > /dev/null 2>&1'',
        Progress ''Preparing compilation command...'',
        Progress ''Compilation of module ...'',
        ProcessLaunch cmd_demo,
        Progress (''Error: err1'' @ nl @ ''err2'' @ nl)]"
    by code_simp
  have proc2: "process w_lines cmd_demo = ran (replicate 23 (Stdout (''x'' @ nl))) 0 fs_built"
    by (simp add: w_lines_def)
  have events2: "fst (compileModule cfg_demo w_lines b_watch ''m.cpp'' ''m.so'' [])
     = [Progress ''Checking C++ compiler availability...'',
        SystemCall ''clang++ --version > /dev/null 2>&1'',
        SystemCall ''g++ --version > /dev/null 2>&1'',
        Progress ''Preparing compilation command...'',
        Progress ''Compilation of module ...'',
        ProcessLaunch cmd_demo,
        Progress ''Compiling... (5 lines)'',
        Progress ''Compiling... (10 lines)'',
        Progress ''Compiling... (15 lines)'',
        Progress ''Compiling... (20 lines)'']"
    by code_simp
  from n1 n2 proc1 events1 proc2 events2 show ?thesis by (intro conjI)
qed

text \<open>
  C8. A process that cannot be launched gives \<open>-1\<close> (\<open>executeCommand_launch_failure\<close>),
  and a missing source, a missing compiler, a failed launch, an exit code other than 0
  and a missing artifact are all returned as results with \<open>success = False\<close>
  (\<open>compileModule_no_source\<close>, \<open>compileModule_unresolved\<close>, \<open>runCompiler_failures\<close>).
  But \<open>compileModule\<close> does throw: the existence test on the source file is the throwing
  overload of \<^verbatim>\<open>fs::exists\<close> and stands outside any \<^verbatim>\<open>try\<close> block, unlike the call
  of \<^verbatim>\<open>fs::absolute\<close> a few lines below it. When the status of the source path cannot be
  read, the exception leaves \<open>compileModule\<close> and no result is returned.
\<close>

theorem unreadable_source_throws_past_compileModule:
  "compileModule cfg_demo w_unreadable b_demo ''/root/models/m.cpp'' ''m.so'' []
     = ([], Inl (filesystem_error ''/root/models/m.cpp''))"
  by (simp add: compileModule_def fs_exists_def w_unreadable_def Let_def)

text \<open>
  C10. Each of the AppImage-specific pieces of the command (the \<open>LD_LIBRARY_PATH\<close>
  prefix, the two \<open>-nostdinc\<close> flags, the \<open>-isystem\<close> directories of the bundled sysroot
  and of the intrinsics) is written exactly when the compiler path contains \<open>.mount_\<close>
  or \<open>/tmp/\<close>. So a compiler path with \<open>/tmp/\<close> in it gets all of them, whoever the
  compiler belongs to; and a bundled compiler announced by \<open>CLANG_TOOLCHAIN_PATH\<close>, found
  and used without a version query, whose stored path contains neither, is launched with
  a command that has none of them: the compiler path, the mode and standard, the
  OOpenCAL and project directories, \<open>-I/usr/include/vtk-9.1\<close>, the files.
\<close>

theorem bundled_treatment_by_path_substring:
  "(cmd_ld_library_path cpath \<noteq> [] \<longleftrightarrow> contains cpath ''.mount_'' \<or> contains cpath ''/tmp/'')
   \<and> (cmd_nostdinc cpath \<noteq> [] \<longleftrightarrow> contains cpath ''.mount_'' \<or> contains cpath ''/tmp/'')
   \<and> (cmd_appimage_isystem cpath \<noteq> [] \<longleftrightarrow> contains cpath ''.mount_'' \<or> contains cpath ''/tmp/'')
   \<and> (cmd_intrinsics w cpath \<noteq> [] \<longleftrightarrow> contains cpath ''.mount_'' \<or> contains cpath ''/tmp/'')
   \<and> (contains (compilerPath b) ''/tmp/'' \<longrightarrow>
         prefix ''LD_LIBRARY_PATH='' (buildCompileCommand cfg w b srcFile outFile cppStandard)
         \<and> contains (buildCompileCommand cfg w b srcFile outFile cppStandard) '' -nostdinc -nostdinc++''
         \<and> contains (buildCompileCommand cfg w b srcFile outFile cppStandard)
              (isystem (mountPoint (compilerPath b) @ ''/usr/include'')))
   \<and> (fs_exists w srcFile = Inr True
        \<and> getenv w ''CLANG_TOOLCHAIN_PATH'' = Some dir \<and> dir \<noteq> []
        \<and> present w (dir @ ''/clang++'') \<and> status_known w (dir @ ''/clang++'')
        \<and> \<not> contains (resolved_path w (dir @ ''/clang++'')) ''.mount_''
        \<and> \<not> contains (resolved_path w (dir @ ''/clang++'')) ''/tmp/''
       \<longrightarrow> getClangToolchainPath cfg w = Inr (dir @ ''/clang++'')
           \<and> filter is_probe (fst (compileModule cfg w b srcFile outFile cppStandard)) = []
           \<and> launched_commands (fst (compileModule cfg w b srcFile outFile cppStandard))
               = [resolved_path w (dir @ ''/clang++'') @ '' -shared -fPIC -std=''
                  @ detectCppStandard cfg cppStandard @ cmd_oopencal b @ cmd_project w b
                  @ '' -I/usr/include/vtk-9.1'' @ cmd_files cfg srcFile outFile])"
proof -
  let ?test = "contains cpath ''.mount_'' \<or> contains cpath ''/tmp/''"
  let ?cmd = "buildCompileCommand cfg w b srcFile outFile cppStandard"
  have ld: "cmd_ld_library_path cpath \<noteq> [] \<longleftrightarrow> ?test"
    by (simp add: cmd_ld_library_path_def usesAppImageClang_def)
  have nostdinc: "cmd_nostdinc cpath \<noteq> [] \<longleftrightarrow> ?test"
    by (simp add: cmd_nostdinc_def usesAppImageClang_def)
  have sysroot: "cmd_appimage_isystem cpath \<noteq> [] \<longleftrightarrow> ?test"
    by (simp add: cmd_appimage_isystem_def usesAppImageClang_def isystem_def Let_def)
  have intrinsics: "cmd_intrinsics w cpath \<noteq> [] \<longleftrightarrow> ?test"
    by (simp add: cmd_intrinsics_def usesAppImageClang_def isystem_def)
  have tmp: "contains (compilerPath b) ''/tmp/'' \<longrightarrow>
         prefix ''LD_LIBRARY_PATH='' ?cmd
         \<and> contains ?cmd '' -nostdinc -nostdinc++''
         \<and> contains ?cmd (isystem (mountPoint (compilerPath b) @ ''/usr/include''))"
  proof
    assume "contains (compilerPath b) ''/tmp/''"
    then have uses: "usesAppImageClang (compilerPath b)"
      by (simp add: usesAppImageClang_def)
    have p: "prefix ''LD_LIBRARY_PATH='' ?cmd"
      by (simp add: buildCompileCommand_appimage [OF uses])
    let ?head = "cmd_ld_library_path (compilerPath b) @ cmd_compiler (compilerPath b) (detectCppStandard cfg cppStandard)"
    let ?rest = "cmd_oopencal b @ cmd_project w b @ cmd_vtk (compilerPath b)
         @ cmd_intrinsics w (compilerPath b) @ cmd_bundled_headers (compilerPath b)
         @ cmd_files cfg srcFile outFile"
    have shape: "?cmd = ?head @ '' -nostdinc -nostdinc++'' @ (cmd_appimage_isystem (compilerPath b) @ ?rest)"
      using uses by (simp add: buildCompileCommand_def cmd_nostdinc_def)
    then have n: "contains ?cmd '' -nostdinc -nostdinc++''"
      by (simp only: contains_mid)
    obtain more where more: "cmd_appimage_isystem (compilerPath b)
         = isystem (mountPoint (compilerPath b) @ ''/usr/include'') @ more"
      using uses by (simp add: cmd_appimage_isystem_def Let_def)
    have "?cmd = (?head @ '' -nostdinc -nostdinc++'') @ isystem (mountPoint (compilerPath b) @ ''/usr/include'')
                   @ (more @ ?rest)"
      by (simp add: shape more)
    then have i: "contains ?cmd (isystem (mountPoint (compilerPath b) @ ''/usr/include''))"
      by (simp only: contains_mid)
    from p n i show "prefix ''LD_LIBRARY_PATH='' ?cmd
         \<and> contains ?cmd '' -nostdinc -nostdinc++''
         \<and> contains ?cmd (isystem (mountPoint (compilerPath b) @ ''/usr/include''))"
      by blast
  qed
  let ?clang = "dir @ ''/clang++''"
  have env: "fs_exists w srcFile = Inr True
        \<and> getenv w ''CLANG_TOOLCHAIN_PATH'' = Some dir \<and> dir \<noteq> []
        \<and> present w ?clang \<and> status_known w ?clang
        \<and> \<not> contains (resolved_path w ?clang) ''.mount_''
        \<and> \<not> contains (resolved_path w ?clang) ''/tmp/''
       \<longrightarrow> getClangToolchainPath cfg w = Inr ?clang
           \<and> filter is_probe (fst (compileModule cfg w b srcFile outFile cppStandard)) = []
           \<and> launched_commands (fst (compileModule cfg w b srcFile outFile cppStandard))
               = [resolved_path w ?clang @ '' -shared -fPIC -std=''
                  @ detectCppStandard cfg cppStandard @ cmd_oopencal b @ cmd_project w b
                  @ '' -I/usr/include/vtk-9.1'' @ cmd_files cfg srcFile outFile]"
  proof
    assume a: "fs_exists w srcFile = Inr True
        \<and> getenv w ''CLANG_TOOLCHAIN_PATH'' = Some dir \<and> dir \<noteq> []
        \<and> present w ?clang \<and> status_known w ?clang
        \<and> \<not> contains (resolved_path w ?clang) ''.mount_''
        \<and> \<not> contains (resolved_path w ?clang) ''/tmp/''"
    then obtain t where "status w ?clang = found t"
      by (cases "status w ?clang") (simp_all add: present_def status_known_def)
    with a have get: "getClangToolchainPath cfg w = Inr ?clang"
      by (simp add: getClangToolchainPath_env)
    have res: "resolveCompiler cfg w b ?clang
               = (resolved_path w ?clang, report b (''Using clang from AppImage: '' @ ?clang))"
      by (simp add: resolveCompiler_def resolved_path_def)
    have ne: "resolved_path w ?clang \<noteq> []"
      by (rule resolved_path_nonempty) simp
    from a have src: "fs_exists w srcFile = Inr True" by simp
    note run = compileModule_resolved [OF src get res ne, of outFile cppStandard]
    from a have plain: "\<not> usesAppImageClang (compilerPath (b\<lparr>compilerPath := resolved_path w ?clang\<rparr>))"
      by (simp add: usesAppImageClang_def)
    have probes: "filter is_probe (fst (compileModule cfg w b srcFile outFile cppStandard)) = []"
      by (simp add: run runCompiler_no_probe filter_probe_progress report_progress)
    have launched: "launched_commands (fst (compileModule cfg w b srcFile outFile cppStandard))
               = [resolved_path w ?clang @ '' -shared -fPIC -std=''
                  @ detectCppStandard cfg cppStandard @ cmd_oopencal b @ cmd_project w b
                  @ '' -I/usr/include/vtk-9.1'' @ cmd_files cfg srcFile outFile]"
      using buildCompileCommand_system [OF plain, of cfg w srcFile outFile cppStandard]
      by (simp add: run launched_commands_append launched_commands_progress report_progress
            launched_commands_runCompiler)
    from get probes launched show "getClangToolchainPath cfg w = Inr ?clang
           \<and> filter is_probe (fst (compileModule cfg w b srcFile outFile cppStandard)) = []
           \<and> launched_commands (fst (compileModule cfg w b srcFile outFile cppStandard))
               = [resolved_path w ?clang @ '' -shared -fPIC -std=''
                  @ detectCppStandard cfg cppStandard @ cmd_oopencal b @ cmd_project w b
                  @ '' -I/usr/include/vtk-9.1'' @ cmd_files cfg srcFile outFile]"
      by blast
  qed
  from ld nostdinc sysroot intrinsics tmp env show ?thesis
    by (intro conjI)
qed

theorem bundled_treatment_by_path_substring_witness:
  "contains (compilerPath b_tmp) ''/tmp/''
   \<and> prefix ''LD_LIBRARY_PATH='' (buildCompileCommand cfg_demo w_tmp b_tmp ''m.cpp'' ''m.so'' [])
   \<and> contains (buildCompileCommand cfg_demo w_tmp b_tmp ''m.cpp'' ''m.so'' []) '' -nostdinc -nostdinc++''
   \<and> fs_exists w_opt ''m.cpp'' = Inr True
   \<and> getenv w_opt ''CLANG_TOOLCHAIN_PATH'' = Some ''/opt/oopencal/bin''
   \<and> present w_opt ''/opt/oopencal/bin/clang++''
   \<and> status_known w_opt ''/opt/oopencal/bin/clang++''
   \<and> \<not> contains (resolved_path w_opt ''/opt/oopencal/bin/clang++'') ''.mount_''
   \<and> \<not> contains (resolved_path w_opt ''/opt/oopencal/bin/clang++'') ''/tmp/''
   \<and> getClangToolchainPath cfg_demo w_opt = Inr ''/opt/oopencal/bin/clang++''
   \<and> filter is_probe (fst (compileModule cfg_demo w_opt b_demo ''m.cpp'' ''m.so'' [])) = []
   \<and> launched_commands (fst (compileModule cfg_demo w_opt b_demo ''m.cpp'' ''m.so'' [])) = [cmd_opt]"
proof -
  have tmp: "contains (compilerPath b_tmp) ''/tmp/''"
    by (simp add: contains_def b_tmp_def sublist_Cons_right)
  have src: "fs_exists w_opt ''m.cpp'' = Inr True"
    by (simp add: fs_exists_def w_opt_def)
  have env: "getenv w_opt ''CLANG_TOOLCHAIN_PATH'' = Some ''/opt/oopencal/bin''"
    by (simp add: w_opt_def)
  have there: "present w_opt (''/opt/oopencal/bin'' @ ''/clang++'')"
    by (simp add: present_def w_opt_def)
  have known: "status_known w_opt (''/opt/oopencal/bin'' @ ''/clang++'')"
    by (simp add: status_known_def w_opt_def)
  have path: "resolved_path w_opt (''/opt/oopencal/bin'' @ ''/clang++'') = ''/opt/oopencal/bin/clang++''"
    by (simp add: resolved_path_def fs_absolute_def)
  have no_mount: "\<not> contains (resolved_path w_opt (''/opt/oopencal/bin'' @ ''/clang++'')) ''.mount_''"
    unfolding path by (simp add: contains_def sublist_Cons_right)
  have no_tmp: "\<not> contains (resolved_path w_opt (''/opt/oopencal/bin'' @ ''/clang++'')) ''/tmp/''"
    unfolding path by (simp add: contains_def sublist_Cons_right)
  have command: "resolved_path w_opt (''/opt/oopencal/bin'' @ ''/clang++'') @ '' -shared -fPIC -std=''
                  @ detectCppStandard cfg_demo [] @ cmd_oopencal b_demo @ cmd_project w_opt b_demo
                  @ '' -I/usr/include/vtk-9.1'' @ cmd_files cfg_demo ''m.cpp'' ''m.so'' = cmd_opt"
    unfolding path
    by (simp add: detectCppStandard_def cmd_oopencal_def cmd_project_def cmd_files_def
          cfg_demo_def b_demo_def w_opt_def w_demo_def cmd_opt_def)
  note under_tmp = bundled_treatment_by_path_substring
    [of "compilerPath b_tmp" w_tmp b_tmp cfg_demo "''m.cpp''" "''m.so''" "[]" "[]"]
  note announced = bundled_treatment_by_path_substring
    [of "[]" w_opt b_demo cfg_demo "''m.cpp''" "''m.so''" "[]" "''/opt/oopencal/bin''"]
  from under_tmp tmp
  have treated: "prefix ''LD_LIBRARY_PATH='' (buildCompileCommand cfg_demo w_tmp b_tmp ''m.cpp'' ''m.so'' [])
     \<and> contains (buildCompileCommand cfg_demo w_tmp b_tmp ''m.cpp'' ''m.so'' []) '' -nostdinc -nostdinc++''"
    by blast
  from announced src env there known no_mount no_tmp
  have "getClangToolchainPath cfg_demo w_opt = Inr (''/opt/oopencal/bin'' @ ''/clang++'')
     \<and> filter is_probe (fst (compileModule cfg_demo w_opt b_demo ''m.cpp'' ''m.so'' [])) = []
     \<and> launched_commands (fst (compileModule cfg_demo w_opt b_demo ''m.cpp'' ''m.so'' []))
          = [resolved_path w_opt (''/opt/oopencal/bin'' @ ''/clang++'') @ '' -shared -fPIC -std=''
                  @ detectCppStandard cfg_demo [] @ cmd_oopencal b_demo @ cmd_project w_opt b_demo
                  @ '' -I/usr/include/vtk-9.1'' @ cmd_files cfg_demo ''m.cpp'' ''m.so'']"
    by blast
  then have plain: "getClangToolchainPath cfg_demo w_opt = Inr ''/opt/oopencal/bin/clang++''
     \<and> filter is_probe (fst (compileModule cfg_demo w_opt b_demo ''m.cpp'' ''m.so'' [])) = []
     \<and> launched_commands (fst (compileModule cfg_demo w_opt b_demo ''m.cpp'' ''m.so'' [])) = [cmd_opt]"
    unfolding command by simp
  from tmp treated src env there known no_mount no_tmp plain show ?thesis
    by simp
qed

section \<open>Properties of the adapter\<close>

lemma invoke_forwards:
  "invoke ops c a =
     (impl_reply ops (m_modelName a) c (m_impl a), a\<lparr>m_impl := impl_after_call ops c (m_impl a)\<rparr>)"
  by (cases c) (simp_all add: impl_reply_def impl_after_call_def)

lemma invoke_all_forwards:
  "invoke_all ops cs a =
     (impl_replies ops (m_modelName a) cs (m_impl a), a\<lparr>m_impl := impl_after ops cs (m_impl a)\<rparr>)"
  by (induction cs arbitrary: a) (simp_all add: invoke_forwards)

text \<open>
  C9. An adapter constructed with the name \<open>s\<close>, after any list of interface calls:
  its name field is \<open>s\<close> and \<open>getModelName\<close> answers \<open>s\<close>; the wrapped implementation
  is in the state it would be in had the corresponding operations been applied to it
  directly with the same arguments; and every reply is the implementation's own
  (or the name). This holds for every implementation type.
\<close>

theorem adapter_forwards_and_keeps_name:
  "invoke_all ops cs (new_SceneWidgetVisualizerAdapter impl s)
     = (impl_replies ops s cs impl, \<lparr>m_impl = impl_after ops cs impl, m_modelName = s\<rparr>)
   \<and> fst (invoke ops getModelName
            (snd (invoke_all ops cs (new_SceneWidgetVisualizerAdapter impl s)))) = ModelName s"
  by (simp add: invoke_all_forwards new_SceneWidgetVisualizerAdapter_def)

end
